theory Spec2Isabelle
  imports Complex_Main "HOL-Library.AList"
begin

section \<open>Values of the host language\<close>

text \<open>
  The tenant map reaches the program as the result of \<^verbatim>\<open>JSON.parse\<close>, typed
  \<^verbatim>\<open>MinecraftServerDefs\<close> by an unchecked annotation. At run time it is an arbitrary JSON
  value, so the model keeps it as one. A JSON number is a finite double; the carrier
  below also has the non-finite doubles that \<^verbatim>\<open>Number\<close> and an overflowing literal yield.
  The entries of \<open>JObj\<close> are the object's own enumerable properties, in enumeration order.
\<close>

datatype jsnum = Finite rat | NaN | PosInfinity | NegInfinity

datatype json =
    JNull
  | JBool bool
  | JNum jsnum
  | JStr string
  | JArr "json list"
  | JObj "(string \<times> json) list"

datatype error = TypeError string

text \<open>Decimal rendering of an array or string index, as a property key.\<close>

fun decimal :: "nat \<Rightarrow> string" where
  "decimal n =
     (if n < 10 then [''0123456789'' ! n]
      else decimal (n div 10) @ [''0123456789'' ! (n mod 10)])"

text \<open>
  The own enumerable properties that an object spread \<^verbatim>\<open>{...v}\<close> copies: those of an
  object, the indexed elements of an array, the indexed characters of a string, and
  nothing for \<^verbatim>\<open>null\<close>, a boolean or a number.
\<close>

fun ownEnumerable :: "json \<Rightarrow> (string \<times> json) list" where
  "ownEnumerable JNull = []"
| "ownEnumerable (JBool b) = []"
| "ownEnumerable (JNum n) = []"
| "ownEnumerable (JStr s) = map (\<lambda>i. (decimal i, JStr [s ! i])) [0..<length s]"
| "ownEnumerable (JArr xs) = map (\<lambda>i. (decimal i, xs ! i)) [0..<length xs]"
| "ownEnumerable (JObj kvs) = kvs"

text \<open>
  \<^verbatim>\<open>{...a, ...v}\<close>: every copied property is assigned onto the properties of \<open>a\<close>;
  a key already present keeps its place and takes the new value, a new key is appended.
\<close>

definition spread :: "(string \<times> json) list \<Rightarrow> json \<Rightarrow> (string \<times> json) list" where
  "spread a v = fold (\<lambda>(k, x). AList.update k x) (ownEnumerable v) a"

text \<open>
  Reading one of the properties \<^verbatim>\<open>memory\<close>, \<^verbatim>\<open>cpu\<close>, \<^verbatim>\<open>containerEnv\<close> of a value that
  may be \<^verbatim>\<open>undefined\<close> (\<open>None\<close>). On \<^verbatim>\<open>undefined\<close> and \<^verbatim>\<open>null\<close> the read throws a
  TypeError; on an object it is the property or \<^verbatim>\<open>undefined\<close>; on every other value it
  is \<^verbatim>\<open>undefined\<close>, none of the three names being an index or \<^verbatim>\<open>length\<close>.
\<close>

fun getProp :: "json option \<Rightarrow> string \<Rightarrow> error + json option" where
  "getProp None p = Inl (TypeError p)"
| "getProp (Some JNull) p = Inl (TypeError p)"
| "getProp (Some (JObj kvs)) p = Inr (map_of kvs p)"
| "getProp (Some v) p = Inr None"

section \<open>Configuration (config.ts)\<close>

datatype Edition = java | bedrock

record Twilio =
  phoneFrom :: string
  phoneTo :: string
  accountId :: string
  authCode :: string

record StackConfig =
  domainName :: string
  serverRegion :: string
  minecraftEdition :: Edition
  shutdownMinutes :: string
  startupMinutes :: string
  useFargateSpot :: bool
  taskCpu :: jsnum
  taskMemory :: jsnum
  vpcId :: string
  snsEmailAddress :: string
  twilio :: Twilio
  debug :: bool
  minecraftServerDefs :: "(string \<times> json) list"

text \<open>
  What config.ts takes from its platform and from util.ts, which is not among the
  sources: \<^verbatim>\<open>JSON.parse\<close> (\<open>None\<close> when it throws a SyntaxError, which it does exactly
  on a text that is not valid JSON), the conversion of a string to a number, and
  \<^verbatim>\<open>stringAsBoolean\<close>.
\<close>

record Platform =
  JSON_parse :: "string \<Rightarrow> json option"
  toNumber :: "string \<Rightarrow> jsnum"
  stringAsBoolean :: "string option \<Rightarrow> bool option"

definition diagnostic :: string where
  "diagnostic = ''Error: Unable to resolve .env value for MINECRAFT_SERVER_DEFS_JSON.''"

text \<open>
  \<^verbatim>\<open>resolveMinecraftServerDefs\<close>. The argument is \<open>None\<close> for \<^verbatim>\<open>undefined\<close>, which the
  default parameter replaces by the empty string. The result is the tenant map together
  with the lines written to \<^verbatim>\<open>console.error\<close>.
\<close>

definition resolveMinecraftServerDefs ::
  "Platform \<Rightarrow> string option \<Rightarrow> (string \<times> json) list \<times> string list" where
  "resolveMinecraftServerDefs pf arg =
     (let json = (case arg of None \<Rightarrow> [] | Some s \<Rightarrow> s);
          defaults = []
      in case JSON_parse pf json of
           Some v \<Rightarrow> (spread defaults v, [])
         | None \<Rightarrow> (defaults, [diagnostic]))"

text \<open>\<^verbatim>\<open>x || d\<close> on an environment variable: the default for \<^verbatim>\<open>undefined\<close> and for the empty string.\<close>

definition orElse :: "string option \<Rightarrow> string \<Rightarrow> string" where
  "orElse x d = (case x of None \<Rightarrow> d | Some s \<Rightarrow> if s = [] then d else s)"

definition numberOrElse :: "Platform \<Rightarrow> string option \<Rightarrow> rat \<Rightarrow> jsnum" where
  "numberOrElse pf x d =
     (case x of None \<Rightarrow> Finite d | Some s \<Rightarrow> if s = [] then Finite d else toNumber pf s)"

definition boolOrFalse :: "bool option \<Rightarrow> bool" where
  "boolOrFalse b = (case b of None \<Rightarrow> False | Some v \<Rightarrow> v)"

text \<open>\<^verbatim>\<open>resolveConfig\<close>, over the process environment; with the lines written to \<^verbatim>\<open>console.error\<close>.\<close>

definition resolveConfig ::
  "Platform \<Rightarrow> (string \<Rightarrow> string option) \<Rightarrow> StackConfig \<times> string list" where
  "resolveConfig pf env =
     (let (defs, out) = resolveMinecraftServerDefs pf (env ''MINECRAFT_SERVER_DEFS_JSON'')
      in (\<lparr> domainName = orElse (env ''DOMAIN_NAME'') [],
            serverRegion = orElse (env ''SERVER_REGION'') ''us-east-1'',
            minecraftEdition = (if env ''MINECRAFT_EDITION'' = Some ''bedrock'' then bedrock else java),
            shutdownMinutes = orElse (env ''SHUTDOWN_MINUTES'') ''20'',
            startupMinutes = orElse (env ''STARTUP_MINUTES'') ''10'',
            useFargateSpot = boolOrFalse (stringAsBoolean pf (env ''USE_FARGATE_SPOT'')),
            taskCpu = numberOrElse pf (env ''TASK_CPU'') 1024,
            taskMemory = numberOrElse pf (env ''TASK_MEMORY'') 2048,
            vpcId = orElse (env ''VPC_ID'') [],
            snsEmailAddress = orElse (env ''SNS_EMAIL_ADDRESS'') [],
            twilio = \<lparr> phoneFrom = orElse (env ''TWILIO_PHONE_FROM'') [],
                       phoneTo = orElse (env ''TWILIO_PHONE_TO'') [],
                       accountId = orElse (env ''TWILIO_ACCOUNT_ID'') [],
                       authCode = orElse (env ''TWILIO_AUTH_CODE'') [] \<rparr>,
            debug = boolOrFalse (stringAsBoolean pf (env ''DEBUG'')),
            minecraftServerDefs = defs \<rparr>, out))"

section \<open>The stack (minecraft-stack.ts)\<close>

subsection \<open>What the stack takes from the rest of the repository\<close>

datatype Protocol = TCP | UDP

text \<open>A port of the networking library: its protocol, its range, and what it prints as.\<close>

record Port =
  portProtocol :: Protocol
  fromPort :: int
  toPort :: int
  portString :: string

record MinecraftEditionConfig =
  image :: string
  port :: int
  protocol :: Protocol
  ingressRulePort :: Port

text \<open>The names of constants.ts that the stack reads. The file is not among the sources, so they are parameters.\<close>

record Constants =
  CLUSTER_NAME :: string
  SERVICE_NAME :: string
  MC_SERVER_CONTAINER_NAME :: string
  WATCHDOG_SERVER_CONTAINER_NAME :: string
  ECS_VOLUME_NAME :: string
  HOSTED_ZONE_SSM_PARAMETER :: string
  LAUNCHER_LAMBDA_ARN_SSM_PARAMETER :: string
  DOMAIN_STACK_REGION :: string

text \<open>
  The helpers of util.ts and ssm-parameter-reader.ts, not among the sources either:
  the edition table, the probe for a local Docker, and the value of a parameter
  published by the other stack, by parameter name and region (an opaque string).
\<close>

record Deps =
  constants :: Constants
  getMinecraftServerConfig :: "Edition \<Rightarrow> MinecraftEditionConfig"
  isDockerInstalled :: bool
  getParameterValue :: "string \<Rightarrow> string \<Rightarrow> string"

subsection \<open>Resource descriptors\<close>

text \<open>
  A string handed to a resource: a literal, an attribute of a construct of this stack
  that is only known at deploy time (by construct id and attribute name), or the result
  of \<^verbatim>\<open>Arn.format\<close> with the slash-separated resource name (service, resource, resource name).
\<close>

datatype cfnstr =
    Plain string
  | Attr string string
  | ArnFormat string string string

datatype Vpc = fromLookup string | newVpc nat nat

record FileSystem =
  fsVpc :: string
  removalPolicy :: string

record AccessPoint =
  apFileSystem :: string
  path :: string
  posixUid :: string
  posixGid :: string
  ownerGid :: string
  ownerUid :: string
  permissions :: string

datatype Effect = ALLOW

record PolicyStatement =
  sid :: "string option"
  effect :: Effect
  actions :: "string list"
  resources :: "cfnstr list"
  conditions :: "(string \<times> string \<times> cfnstr) list"

record Policy =
  policyId :: string
  statements :: "PolicyStatement list"

record Role =
  roleId :: string
  assumedBy :: string
  roleDescription :: string

record Cluster =
  clusterName :: string
  clusterVpc :: string
  containerInsights :: bool
  enableFargateCapacityProviders :: bool

record SecurityGroup =
  sgId :: string
  sgVpc :: string
  sgDescription :: string

record IngressRule =
  peer :: string
  connection :: Port
  ruleDescription :: string

record SSMParameterReader =
  readerId :: string
  parameterName :: string
  region :: string

record Topic =
  topicId :: string
  displayName :: string

record Subscription =
  subscriptionId :: string
  subscriptionProtocol :: string
  topic :: string
  endpoint :: string

text \<open>
  The launch template of the maintenance host. The fixed text of its boot script is not
  reproduced; the two values the script interpolates are.
\<close>

record LaunchTemplate =
  userDataFileSystemId :: cfnstr
  userDataServerRegion :: string
  ltRole :: string
  interruptionBehavior :: string
  requestType :: string
  ltSecurityGroup :: string
  instanceInitiatedShutdownBehavior :: string

record Volume =
  volumeName :: string
  fileSystemId :: cfnstr
  transitEncryption :: string
  accessPointId :: cfnstr
  iam :: string

record TaskDefinition =
  taskDefinitionId :: string
  taskRole :: string
  memoryLimitMiB :: "json option"
  cpu :: "json option"
  volumes :: "Volume list"

datatype ContainerImage = fromRegistry string | fromAsset string

record PortMapping =
  containerPort :: int
  hostPort :: int
  mappingProtocol :: Protocol

record AwsLogDriver =
  logRetention :: string
  streamPrefix :: string

text \<open>
  A container's environment: the tenant's \<^verbatim>\<open>containerEnv\<close> as it was read (possibly
  \<^verbatim>\<open>undefined\<close>) for the server, a literal table of strings for the watchdog.
\<close>

datatype Environment = FromDef "json option" | Vars "(string \<times> cfnstr) list"

record ContainerDefinition =
  containerId :: string
  containerName :: string
  containerImage :: ContainerImage
  portMappings :: "PortMapping list"
  environment :: Environment
  entryPoint :: "string list"
  essential :: bool
  pseudoTerminal :: "bool option"
  containerTaskDefinition :: string
  logging :: "AwsLogDriver option"

record MountPoint =
  containerPath :: string
  sourceVolume :: string
  readOnly :: bool

record CapacityProviderStrategy =
  capacityProvider :: string
  weight :: int
  base :: int

record FargateService =
  serviceId :: string
  serviceCluster :: string
  capacityProviderStrategies :: "CapacityProviderStrategy list"
  serviceTaskDefinition :: string
  platformVersion :: string
  serviceName :: string
  desiredCount :: int
  assignPublicIp :: bool
  securityGroups :: "string list"

text \<open>
  The constructs of the stack, each kind in creation order, with the relations the
  method calls add to them: the rules of the service security group, the attachments
  of policies to roles (policy id, role id), the publish grants (topic id, role id),
  the peers allowed to the file system's default port, the mount points of a container,
  and the roles imported by ARN (construct id, ARN).
\<close>

record Stack =
  vpc :: Vpc
  fileSystem :: FileSystem
  accessPoint :: AccessPoint
  policies :: "Policy list"
  roles :: "Role list"
  attachments :: "(string \<times> string) list"
  cluster :: Cluster
  groups :: "SecurityGroup list"
  directIngressRules :: "IngressRule list"
  readers :: "SSMParameterReader list"
  topics :: "Topic list"
  subscriptions :: "Subscription list"
  publishGrants :: "(string \<times> string) list"
  allowDefaultPortFrom :: "string list"
  launchTemplate :: LaunchTemplate
  taskDefinitions :: "TaskDefinition list"
  containers :: "ContainerDefinition list"
  mountPoints :: "(string \<times> MountPoint) list"
  services :: "FargateService list"
  importedRoles :: "(string \<times> string) list"

subsection \<open>The security group's rules\<close>

text \<open>
  \<^verbatim>\<open>addIngressRule\<close> is the networking library's. For a peer and a port that can be
  written inline, as the address range and the ports of this stack can, the group
  keeps a list of rules and appends the new one unless a rule with the same peer,
  protocol and port range is already there; the description is not compared.
\<close>

definition ingressRulesEqual :: "IngressRule \<Rightarrow> IngressRule \<Rightarrow> bool" where
  "ingressRulesEqual a b =
     (peer a = peer b \<and>
      fromPort (connection a) = fromPort (connection b) \<and>
      toPort (connection a) = toPort (connection b) \<and>
      portProtocol (connection a) = portProtocol (connection b))"

definition addIngressRule :: "IngressRule \<Rightarrow> IngressRule list \<Rightarrow> IngressRule list" where
  "addIngressRule rule rules =
     (if list_ex (\<lambda>r. ingressRulesEqual r rule) rules then rules else rules @ [rule])"

subsection \<open>The shared part of the constructor\<close>

definition anyIpv4 :: string where
  "anyIpv4 = ''0.0.0.0/0''"

definition efsReadWriteDataPolicy :: Policy where
  "efsReadWriteDataPolicy =
     \<lparr> policyId = ''DataRWPolicy'',
       statements =
         [\<lparr> sid = Some ''AllowReadWriteOnEFS'',
            effect = ALLOW,
            actions = [''elasticfilesystem:ClientMount'',
                       ''elasticfilesystem:ClientWrite'',
                       ''elasticfilesystem:DescribeFileSystems''],
            resources = [Attr ''FileSystem'' ''fileSystemArn''],
            conditions = [(''StringEquals'', ''elasticfilesystem:AccessPointArn'',
                           Attr ''AccessPoint'' ''accessPointArn'')] \<rparr>] \<rparr>"

definition ssmManagedInstanceCorePolicy :: Policy where
  "ssmManagedInstanceCorePolicy =
     \<lparr> policyId = ''SSMManagedInstanceCorePolicy'',
       statements =
         [\<lparr> sid = Some ''AllowSSMManagedInstance'',
            effect = ALLOW,
            actions = [''ssm:DescribeAssociation'',
                       ''ssm:GetDeployablePatchSnapshotForInstance'',
                       ''ssm:GetDocument'',
                       ''ssm:DescribeDocument'',
                       ''ssm:GetManifest'',
                       ''ssm:GetParameter'',
                       ''ssm:GetParameters'',
                       ''ssm:ListAssociations'',
                       ''ssm:ListInstanceAssociations'',
                       ''ssm:PutInventory'',
                       ''ssm:PutComplianceItems'',
                       ''ssm:PutConfigurePackageResult'',
                       ''ssm:UpdateAssociationStatus'',
                       ''ssm:UpdateInstanceAssociationStatus'',
                       ''ssm:UpdateInstanceInformation'',
                       ''ssmmessages:CreateControlChannel'',
                       ''ssmmessages:CreateDataChannel'',
                       ''ssmmessages:OpenControlChannel'',
                       ''ssmmessages:OpenDataChannel'',
                       ''ec2messages:AcknowledgeMessage'',
                       ''ec2messages:DeleteMessage'',
                       ''ec2messages:FailMessage'',
                       ''ec2messages:GetEndpoint'',
                       ''ec2messages:GetMessages'',
                       ''ec2messages:SendReply''],
            resources = [Plain ''*''],
            conditions = [] \<rparr>] \<rparr>"

text \<open>The hosted zone id, read from the other stack's parameter.\<close>

definition hostedZoneId :: "Deps \<Rightarrow> string" where
  "hostedZoneId d =
     getParameterValue d (HOSTED_ZONE_SSM_PARAMETER (constants d)) (DOMAIN_STACK_REGION (constants d))"

text \<open>
  \<^verbatim>\<open>snsTopicArn\<close> after the conditional: the topic's ARN if an email address is
  configured (a non-empty string), the empty string otherwise.
\<close>

definition snsTopicArn :: "StackConfig \<Rightarrow> cfnstr" where
  "snsTopicArn config =
     (if snsEmailAddress config \<noteq> [] then Attr ''ServerSnsTopic'' ''topicArn'' else Plain [])"

text \<open>Everything the constructor builds before the loop over the tenant map.\<close>

definition shared :: "Deps \<Rightarrow> StackConfig \<Rightarrow> Stack" where
  "shared d config =
     \<lparr> vpc = (if vpcId config \<noteq> [] then fromLookup (vpcId config) else newVpc 3 0),
       fileSystem = \<lparr> fsVpc = ''Vpc'', removalPolicy = ''SNAPSHOT'' \<rparr>,
       accessPoint =
         \<lparr> apFileSystem = ''FileSystem'', path = ''/minecraft'',
           posixUid = ''1000'', posixGid = ''1000'',
           ownerGid = ''1000'', ownerUid = ''1000'', permissions = ''0755'' \<rparr>,
       policies = [efsReadWriteDataPolicy, ssmManagedInstanceCorePolicy],
       roles =
         [\<lparr> roleId = ''TaskRole'', assumedBy = ''ecs-tasks.amazonaws.com'',
            roleDescription = ''Minecraft ECS task role'' \<rparr>,
          \<lparr> roleId = ''EFSMaintenanceRole'', assumedBy = ''ec2.amazonaws.com'',
            roleDescription = ''Minecraft EC2 instance role'' \<rparr>],
       attachments =
         [(''DataRWPolicy'', ''TaskRole''),
          (''SSMManagedInstanceCorePolicy'', ''EFSMaintenanceRole''),
          (''DataRWPolicy'', ''EFSMaintenanceRole'')],
       cluster =
         \<lparr> clusterName = CLUSTER_NAME (constants d), clusterVpc = ''Vpc'',
           containerInsights = False, enableFargateCapacityProviders = True \<rparr>,
       groups =
         [\<lparr> sgId = ''ServiceSecurityGroup'', sgVpc = ''Vpc'',
            sgDescription = ''Security group for Minecraft on-demand'' \<rparr>,
          \<lparr> sgId = ''EfsMaintenanceSecurityGroup'', sgVpc = ''Vpc'',
            sgDescription = ''Security group for Minecraft on-demand EFS Maintenance Instances'' \<rparr>],
       directIngressRules = [],
       readers =
         [\<lparr> readerId = ''Route53HostedZoneIdReader'',
            parameterName = HOSTED_ZONE_SSM_PARAMETER (constants d),
            region = DOMAIN_STACK_REGION (constants d) \<rparr>],
       topics =
         (if snsEmailAddress config \<noteq> []
          then [\<lparr> topicId = ''ServerSnsTopic'', displayName = ''Minecraft Server Notifications'' \<rparr>]
          else []),
       subscriptions =
         (if snsEmailAddress config \<noteq> []
          then [\<lparr> subscriptionId = ''EmailSubscription'', subscriptionProtocol = ''EMAIL'',
                   topic = ''ServerSnsTopic'', endpoint = snsEmailAddress config \<rparr>]
          else []),
       publishGrants =
         (if snsEmailAddress config \<noteq> [] then [(''ServerSnsTopic'', ''TaskRole'')] else []),
       allowDefaultPortFrom = [''EfsMaintenanceSecurityGroup''],
       launchTemplate =
         \<lparr> userDataFileSystemId = Attr ''FileSystem'' ''fileSystemId'',
           userDataServerRegion = serverRegion config,
           ltRole = ''EFSMaintenanceRole'',
           interruptionBehavior = ''TERMINATE'',
           requestType = ''ONE_TIME'',
           ltSecurityGroup = ''EfsMaintenanceSecurityGroup'',
           instanceInitiatedShutdownBehavior = ''TERMINATE'' \<rparr>,
       taskDefinitions = [],
       containers = [],
       mountPoints = [],
       services = [],
       importedRoles = [] \<rparr>"

subsection \<open>The loop body: one tenant\<close>

definition ecsVolume :: "Deps \<Rightarrow> Volume" where
  "ecsVolume d =
     \<lparr> volumeName = ECS_VOLUME_NAME (constants d),
       fileSystemId = Attr ''FileSystem'' ''fileSystemId'',
       transitEncryption = ''ENABLED'',
       accessPointId = Attr ''AccessPoint'' ''accessPointId'',
       iam = ''ENABLED'' \<rparr>"

definition taskDefinition :: "Deps \<Rightarrow> string \<Rightarrow> json option \<Rightarrow> json option \<Rightarrow> TaskDefinition" where
  "taskDefinition d key memory cpuUnits =
     \<lparr> taskDefinitionId = ''TaskDefinition-'' @ key,
       taskRole = ''TaskRole'',
       memoryLimitMiB = memory,
       cpu = cpuUnits,
       volumes = [ecsVolume d] \<rparr>"

definition minecraftServerContainer ::
  "Deps \<Rightarrow> StackConfig \<Rightarrow> string \<Rightarrow> json option \<Rightarrow> ContainerDefinition" where
  "minecraftServerContainer d config key containerEnv =
     (let minecraftServerConfig = getMinecraftServerConfig d (minecraftEdition config)
      in \<lparr> containerId = ''ServerContainer-'' @ key,
           containerName = MC_SERVER_CONTAINER_NAME (constants d) @ ''-'' @ key,
           containerImage = fromRegistry (image minecraftServerConfig),
           portMappings =
             [\<lparr> containerPort = port minecraftServerConfig,
                hostPort = port minecraftServerConfig,
                mappingProtocol = protocol minecraftServerConfig \<rparr>],
           environment = FromDef containerEnv,
           entryPoint = [''/minecraft/minecraft.sh''],
           essential = True,
           pseudoTerminal = Some True,
           containerTaskDefinition = ''TaskDefinition-'' @ key,
           logging =
             (if debug config
              then Some \<lparr> logRetention = ''THREE_DAYS'',
                          streamPrefix = MC_SERVER_CONTAINER_NAME (constants d) \<rparr>
              else None) \<rparr>)"

definition minecraftMount :: "Deps \<Rightarrow> MountPoint" where
  "minecraftMount d =
     \<lparr> containerPath = ''/minecraft'',
       sourceVolume = ECS_VOLUME_NAME (constants d),
       readOnly = False \<rparr>"

definition minecraftServerService :: "Deps \<Rightarrow> StackConfig \<Rightarrow> string \<Rightarrow> FargateService" where
  "minecraftServerService d config key =
     \<lparr> serviceId = ''FargateService-'' @ key,
       serviceCluster = ''Cluster'',
       capacityProviderStrategies =
         [\<lparr> capacityProvider = (if useFargateSpot config then ''FARGATE_SPOT'' else ''FARGATE''),
            weight = 1,
            base = 1 \<rparr>],
       serviceTaskDefinition = ''TaskDefinition-'' @ key,
       platformVersion = ''LATEST'',
       serviceName = SERVICE_NAME (constants d) @ ''-'' @ key,
       desiredCount = 0,
       assignPublicIp = True,
       securityGroups = [''ServiceSecurityGroup''] \<rparr>"

definition watchdogEnvironment :: "Deps \<Rightarrow> StackConfig \<Rightarrow> string \<Rightarrow> (string \<times> cfnstr) list" where
  "watchdogEnvironment d config key =
     [(''CLUSTER'', Plain (CLUSTER_NAME (constants d))),
      (''SERVICE'', Plain (SERVICE_NAME (constants d) @ ''-'' @ key)),
      (''DNSZONE'', Plain (hostedZoneId d)),
      (''SERVERNAME'', Plain (key @ ''.'' @ domainName config)),
      (''SNSTOPIC'', snsTopicArn config),
      (''TWILIOFROM'', Plain (phoneFrom (twilio config))),
      (''TWILIOTO'', Plain (phoneTo (twilio config))),
      (''TWILIOAID'', Plain (accountId (twilio config))),
      (''TWILIOAUTH'', Plain (authCode (twilio config))),
      (''STARTUPMIN'', Plain (startupMinutes config)),
      (''SHUTDOWNMIN'', Plain (shutdownMinutes config))]"

definition watchdogContainer :: "Deps \<Rightarrow> StackConfig \<Rightarrow> string \<Rightarrow> ContainerDefinition" where
  "watchdogContainer d config key =
     \<lparr> containerId = ''WatchDogContainer-'' @ key,
       containerName = WATCHDOG_SERVER_CONTAINER_NAME (constants d) @ ''-'' @ key,
       containerImage =
         (if isDockerInstalled d
          then fromAsset ''../../minecraft-ecsfargate-watchdog/''
          else fromRegistry ''doctorray/minecraft-ecsfargate-watchdog''),
       portMappings = [],
       environment = Vars (watchdogEnvironment d config key),
       entryPoint = [''/minecraft/watchdog.sh''],
       essential = True,
       pseudoTerminal = None,
       containerTaskDefinition = ''TaskDefinition-'' @ key,
       logging =
         (if debug config
          then Some \<lparr> logRetention = ''THREE_DAYS'',
                      streamPrefix = WATCHDOG_SERVER_CONTAINER_NAME (constants d) \<rparr>
          else None) \<rparr>"

definition serviceControlPolicy :: "Deps \<Rightarrow> string \<Rightarrow> Policy" where
  "serviceControlPolicy d key =
     \<lparr> policyId = ''ServiceControlPolicy-'' @ key,
       statements =
         [\<lparr> sid = Some (''AllowAllOnServiceAndTask'' @ key),
            effect = ALLOW,
            actions = [''ecs:*''],
            resources =
              [Attr (''FargateService-'' @ key) ''serviceArn'',
               ArnFormat ''ecs'' ''task'' (CLUSTER_NAME (constants d) @ ''/*'')],
            conditions = [] \<rparr>,
          \<lparr> sid = None,
            effect = ALLOW,
            actions = [''ec2:DescribeNetworkInterfaces''],
            resources = [Plain ''*''],
            conditions = [] \<rparr>] \<rparr>"

definition launcherLambdaRoleArn :: "Deps \<Rightarrow> string \<Rightarrow> string" where
  "launcherLambdaRoleArn d key =
     getParameterValue d
       (LAUNCHER_LAMBDA_ARN_SSM_PARAMETER (constants d) @ ''-'' @ key)
       (DOMAIN_STACK_REGION (constants d))"

definition iamRoute53Policy :: "Deps \<Rightarrow> string \<Rightarrow> Policy" where
  "iamRoute53Policy d key =
     \<lparr> policyId = ''IamRoute53Policy-'' @ key,
       statements =
         [\<lparr> sid = Some ''AllowEditRecordSets'',
            effect = ALLOW,
            actions = [''route53:GetHostedZone'',
                       ''route53:ChangeResourceRecordSets'',
                       ''route53:ListResourceRecordSets''],
            resources = [Plain (''arn:aws:route53:::hostedzone/'' @ hostedZoneId d)],
            conditions = [] \<rparr>] \<rparr>"

definition editionIngressRule :: "Deps \<Rightarrow> StackConfig \<Rightarrow> IngressRule" where
  "editionIngressRule d config =
     (let minecraftServerConfig = getMinecraftServerConfig d (minecraftEdition config)
      in \<lparr> peer = anyIpv4,
           connection = ingressRulePort minecraftServerConfig,
           ruleDescription =
             ''Minecraft-Server-Ingress-'' @ portString (ingressRulePort minecraftServerConfig) \<rparr>)"

text \<open>
  One pass of the loop body for \<open>key\<close>, on the stack built so far. The definition of the
  tenant is looked up in the map; its \<^verbatim>\<open>memory\<close>, \<^verbatim>\<open>cpu\<close> and \<^verbatim>\<open>containerEnv\<close> are read
  as they are and handed on, absent or not. A read that throws ends the constructor.
  The checks that the library's constructors make on what they are handed (the values
  of \<^verbatim>\<open>cpu\<close> and \<^verbatim>\<open>memory\<close>, construct ids that collide) are not modelled: a pass
  that returns here may still throw there, so what is said of the finished stack is
  said of a constructor that returned.
\<close>

definition tenant :: "Deps \<Rightarrow> StackConfig \<Rightarrow> string \<Rightarrow> Stack \<Rightarrow> error + Stack" where
  "tenant d config key s =
     (let thisMinecraftServerDef = map_of (minecraftServerDefs config) key;
          s1 = s\<lparr> directIngressRules :=
                    addIngressRule (editionIngressRule d config) (directIngressRules s) \<rparr>
      in case getProp thisMinecraftServerDef ''memory'' of
           Inl e \<Rightarrow> Inl e
         | Inr memory \<Rightarrow>
        (case getProp thisMinecraftServerDef ''cpu'' of
           Inl e \<Rightarrow> Inl e
         | Inr cpuUnits \<Rightarrow>
        (case getProp thisMinecraftServerDef ''containerEnv'' of
           Inl e \<Rightarrow> Inl e
         | Inr containerEnv \<Rightarrow>
           Inr (s1\<lparr>
             taskDefinitions := taskDefinitions s1 @ [taskDefinition d key memory cpuUnits],
             containers := containers s1 @
               [minecraftServerContainer d config key containerEnv,
                watchdogContainer d config key],
             mountPoints := mountPoints s1 @
               [(''ServerContainer-'' @ key, minecraftMount d),
                (''WatchDogContainer-'' @ key, minecraftMount d)],
             services := services s1 @ [minecraftServerService d config key],
             allowDefaultPortFrom := allowDefaultPortFrom s1 @ [''FargateService-'' @ key],
             policies := policies s1 @ [serviceControlPolicy d key, iamRoute53Policy d key],
             readers := readers s1 @
               [\<lparr> readerId = ''launcherLambdaRoleArn-'' @ key,
                  parameterName = LAUNCHER_LAMBDA_ARN_SSM_PARAMETER (constants d) @ ''-'' @ key,
                  region = DOMAIN_STACK_REGION (constants d) \<rparr>],
             importedRoles := importedRoles s1 @
               [(''LauncherLambdaRole-'' @ key, launcherLambdaRoleArn d key)],
             attachments := attachments s1 @
               [(''ServiceControlPolicy-'' @ key, ''TaskRole''),
                (''ServiceControlPolicy-'' @ key, ''LauncherLambdaRole-'' @ key),
                (''IamRoute53Policy-'' @ key, ''TaskRole'')] \<rparr>))))"

subsection \<open>The constructor\<close>

text \<open>\<^verbatim>\<open>forEach\<close> over the keys, in order; a throw in the body ends the loop and the constructor.\<close>

fun forEach :: "(string \<Rightarrow> Stack \<Rightarrow> error + Stack) \<Rightarrow> string list \<Rightarrow> Stack \<Rightarrow> error + Stack" where
  "forEach body [] s = Inr s"
| "forEach body (key # keys) s =
     (case body key s of Inl e \<Rightarrow> Inl e | Inr s' \<Rightarrow> forEach body keys s')"

definition Object_keys :: "(string \<times> json) list \<Rightarrow> string list" where
  "Object_keys obj = map fst obj"

definition MinecraftStack :: "Deps \<Rightarrow> StackConfig \<Rightarrow> error + Stack" where
  "MinecraftStack d config =
     forEach (tenant d config) (Object_keys (minecraftServerDefs config)) (shared d config)"

section \<open>Notions used to state the properties\<close>

text \<open>
  What the loop body reads from the definition of \<open>key\<close> for property \<open>p\<close>, when the read
  does not throw: the property of an object, \<^verbatim>\<open>undefined\<close> (\<open>None\<close>) where it is absent.
\<close>

definition readProp :: "StackConfig \<Rightarrow> string \<Rightarrow> string \<Rightarrow> json option" where
  "readProp config key p =
     (case getProp (map_of (minecraftServerDefs config) key) p of Inl e \<Rightarrow> None | Inr v \<Rightarrow> v)"

text \<open>The policies attached to a role, by the role's construct id.\<close>

definition attachedPolicies :: "Stack \<Rightarrow> string \<Rightarrow> Policy list" where
  "attachedPolicies t role = filter (\<lambda>p. (policyId p, role) \<in> set (attachments t)) (policies t)"

text \<open>The resource scopes a policy names, over all its statements.\<close>

definition policyScopes :: "Policy \<Rightarrow> cfnstr list" where
  "policyScopes p = concat (map resources (statements p))"

subsection \<open>A sample deployment\<close>

text \<open>
  The configuration of the repository's \<^verbatim>\<open>.env.sample\<close>: the Bedrock edition, spot
  capacity, debug logging, no operator email, and the two tenants \<^verbatim>\<open>server1\<close> and
  \<^verbatim>\<open>server2\<close>, whose definitions carry a \<^verbatim>\<open>containerEnv\<close> and neither \<^verbatim>\<open>cpu\<close> nor
  \<^verbatim>\<open>memory\<close>. The constants, the edition table and the published parameters are
  sample values for the files that are not among the sources.
\<close>

definition sampleDeps :: Deps where
  "sampleDeps =
     \<lparr> constants =
         \<lparr> CLUSTER_NAME = ''minecraft'',
           SERVICE_NAME = ''minecraft-server'',
           MC_SERVER_CONTAINER_NAME = ''minecraft-server'',
           WATCHDOG_SERVER_CONTAINER_NAME = ''minecraft-ecsfargate-watchdog'',
           ECS_VOLUME_NAME = ''data'',
           HOSTED_ZONE_SSM_PARAMETER = ''MinecraftHostedZoneID'',
           LAUNCHER_LAMBDA_ARN_SSM_PARAMETER = ''LauncherLambdaRoleArn'',
           DOMAIN_STACK_REGION = ''us-east-1'' \<rparr>,
       getMinecraftServerConfig =
         (\<lambda>e. case e of
            java \<Rightarrow>
              \<lparr> image = ''itzg/minecraft-server'', port = 25565, protocol = TCP,
                ingressRulePort =
                  \<lparr> portProtocol = TCP, fromPort = 25565, toPort = 25565, portString = ''25565'' \<rparr> \<rparr>
          | bedrock \<Rightarrow>
              \<lparr> image = ''itzg/minecraft-bedrock-server'', port = 19132, protocol = UDP,
                ingressRulePort =
                  \<lparr> portProtocol = UDP, fromPort = 19132, toPort = 19132, portString = ''UDP 19132'' \<rparr> \<rparr>),
       isDockerInstalled = False,
       getParameterValue = (\<lambda>name region. ''value:'' @ name @ ''@'' @ region) \<rparr>"

definition sampleDefs :: "(string \<times> json) list" where
  "sampleDefs =
     [(''server1'',
       JObj [(''cloudWatchTriggerEnabled'', JBool False),
             (''functionUrlEnabled'', JBool True),
             (''containerEnv'',
              JObj [(''DATA_SUBPATH'', JStr ''server1-data''),
                    (''QuietCurl'', JStr ''Y''),
                    (''NoPermCheck'', JStr ''Y'')])]),
      (''server2'',
       JObj [(''cloudWatchTriggerEnabled'', JBool False),
             (''functionUrlEnabled'', JBool True),
             (''containerEnv'',
              JObj [(''DATA_SUBPATH'', JStr ''server2-data''),
                    (''QuietCurl'', JStr ''Y''),
                    (''NoPermCheck'', JStr ''Y'')])])]"

definition sampleConfig :: StackConfig where
  "sampleConfig =
     \<lparr> domainName = ''minecraft.example.com'',
       serverRegion = ''us-east-1'',
       minecraftEdition = bedrock,
       shutdownMinutes = ''10'',
       startupMinutes = ''5'',
       useFargateSpot = True,
       taskCpu = Finite 2048,
       taskMemory = Finite 4096,
       vpcId = [],
       snsEmailAddress = [],
       twilio = \<lparr> phoneFrom = [], phoneTo = [], accountId = [], authCode = [] \<rparr>,
       debug = True,
       minecraftServerDefs = sampleDefs \<rparr>"

definition sampleStack :: Stack where
  "sampleStack = projr (MinecraftStack sampleDeps sampleConfig)"

text \<open>The same deployment with an operator's email address configured.\<close>

definition sampleConfigWithEmail :: StackConfig where
  "sampleConfigWithEmail = sampleConfig\<lparr> snsEmailAddress := ''ops@example.com'' \<rparr>"

text \<open>
  A process environment whose tenant map is not JSON, and a platform for it. The sample
  parser knows the empty object and rejects every other text, which is all that the
  malformed sample needs of it.
\<close>

definition samplePlatform :: Platform where
  "samplePlatform =
     \<lparr> JSON_parse = (\<lambda>s. if s = ''{}'' then Some (JObj []) else None),
       toNumber = (\<lambda>s. NaN),
       stringAsBoolean = (\<lambda>s. Some (s = Some ''true'')) \<rparr>"

definition sampleEnv :: "string \<Rightarrow> string option" where
  "sampleEnv name =
     (if name = ''MINECRAFT_SERVER_DEFS_JSON'' then Some ''{not json''
      else if name = ''DOMAIN_NAME'' then Some ''minecraft.example.com''
      else None)"

section \<open>The loop, field by field\<close>

text \<open>
  A pass of the loop body that returns appends to each per-tenant list and leaves the
  shared nodes alone; it returns unless the tenant's definition is \<^verbatim>\<open>null\<close>. The
  lemmas below say so for one pass, lift it to the loop by induction on the keys, and
  read off each field of the finished stack.
\<close>

lemma tenant_Inr:
  assumes "tenant d config key s = Inr s'"
  shows "s' = s\<lparr> directIngressRules :=
                    addIngressRule (editionIngressRule d config) (directIngressRules s),
             taskDefinitions := taskDefinitions s @
               [taskDefinition d key (readProp config key ''memory'') (readProp config key ''cpu'')],
             containers := containers s @
               [minecraftServerContainer d config key (readProp config key ''containerEnv''),
                watchdogContainer d config key],
             mountPoints := mountPoints s @
               [(''ServerContainer-'' @ key, minecraftMount d),
                (''WatchDogContainer-'' @ key, minecraftMount d)],
             services := services s @ [minecraftServerService d config key],
             allowDefaultPortFrom := allowDefaultPortFrom s @ [''FargateService-'' @ key],
             policies := policies s @ [serviceControlPolicy d key, iamRoute53Policy d key],
             readers := readers s @
               [\<lparr> readerId = ''launcherLambdaRoleArn-'' @ key,
                  parameterName = LAUNCHER_LAMBDA_ARN_SSM_PARAMETER (constants d) @ ''-'' @ key,
                  region = DOMAIN_STACK_REGION (constants d) \<rparr>],
             importedRoles := importedRoles s @
               [(''LauncherLambdaRole-'' @ key, launcherLambdaRoleArn d key)],
             attachments := attachments s @
               [(''ServiceControlPolicy-'' @ key, ''TaskRole''),
                (''ServiceControlPolicy-'' @ key, ''LauncherLambdaRole-'' @ key),
                (''IamRoute53Policy-'' @ key, ''TaskRole'')] \<rparr>"
  using assms unfolding tenant_def readProp_def Let_def
  by (auto split: sum.splits)

lemma tenant_ok_iff:
  "(\<exists>s'. tenant d config key s = Inr s') \<longleftrightarrow>
     (map_of (minecraftServerDefs config) key \<noteq> None \<and> map_of (minecraftServerDefs config) key \<noteq> Some JNull)"
  unfolding tenant_def Let_def
  by (cases "(map_of (minecraftServerDefs config) key, ''memory'')" rule: getProp.cases)
     (auto split: sum.splits)

lemma forEach_append:
  assumes step: "\<And>k s s'. body k s = Inr s' \<Longrightarrow> f s' = f s @ g k"
  shows "forEach body ks s = Inr s' \<Longrightarrow> f s' = f s @ concat (map g ks)"
proof (induction ks arbitrary: s)
  case Nil
  then show ?case by simp
next
  case (Cons k ks)
  then obtain s1 where b: "body k s = Inr s1" and r: "forEach body ks s1 = Inr s'"
    by (auto split: sum.splits)
  from step[OF b] Cons.IH[OF r] show ?case by simp
qed

lemma forEach_const:
  assumes step: "\<And>k s s'. body k s = Inr s' \<Longrightarrow> f s' = f s"
  shows "forEach body ks s = Inr s' \<Longrightarrow> f s' = f s"
proof (induction ks arbitrary: s)
  case Nil
  then show ?case by simp
next
  case (Cons k ks)
  then obtain s1 where b: "body k s = Inr s1" and r: "forEach body ks s1 = Inr s'"
    by (auto split: sum.splits)
  from step[OF b] Cons.IH[OF r] show ?case by simp
qed

lemma forEach_ok:
  assumes "\<And>k s. k \<in> set ks \<Longrightarrow> \<exists>s'. body k s = Inr s'"
  shows "\<exists>s'. forEach body ks s = Inr s'"
  using assms
proof (induction ks arbitrary: s)
  case Nil
  then show ?case by simp
next
  case (Cons k ks)
  then obtain s1 where b: "body k s = Inr s1" by (meson list.set_intros(1))
  from Cons.IH[of s1] Cons.prems obtain s' where "forEach body ks s1 = Inr s'"
    by (meson list.set_intros(2))
  with b show ?case by simp
qed

lemma forEach_append1:
  assumes step: "\<And>k s s'. body k s = Inr s' \<Longrightarrow> f s' = f s @ [g k]"
  shows "forEach body ks s = Inr s' \<Longrightarrow> f s' = f s @ map g ks"
  using forEach_append[where f = f and body = body and g = "\<lambda>k. [g k]", OF step]
  by (simp add: concat_map_singleton)

lemma tenant_taskDefinitions:
  "tenant d config key s = Inr s' \<Longrightarrow>
   taskDefinitions s' = taskDefinitions s @
     [taskDefinition d key (readProp config key ''memory'') (readProp config key ''cpu'')]"
  by (drule tenant_Inr) simp

lemma tenant_containers:
  "tenant d config key s = Inr s' \<Longrightarrow>
   containers s' = containers s @
     [minecraftServerContainer d config key (readProp config key ''containerEnv''),
      watchdogContainer d config key]"
  by (drule tenant_Inr) simp

lemma tenant_services:
  "tenant d config key s = Inr s' \<Longrightarrow>
   services s' = services s @ [minecraftServerService d config key]"
  by (drule tenant_Inr) simp

lemma tenant_policies:
  "tenant d config key s = Inr s' \<Longrightarrow>
   policies s' = policies s @ [serviceControlPolicy d key, iamRoute53Policy d key]"
  by (drule tenant_Inr) simp

lemma tenant_attachments:
  "tenant d config key s = Inr s' \<Longrightarrow>
   attachments s' = attachments s @
     [(''ServiceControlPolicy-'' @ key, ''TaskRole''),
      (''ServiceControlPolicy-'' @ key, ''LauncherLambdaRole-'' @ key),
      (''IamRoute53Policy-'' @ key, ''TaskRole'')]"
  by (drule tenant_Inr) simp

lemma tenant_mountPoints:
  "tenant d config key s = Inr s' \<Longrightarrow>
   mountPoints s' = mountPoints s @
     [(''ServerContainer-'' @ key, minecraftMount d),
      (''WatchDogContainer-'' @ key, minecraftMount d)]"
  by (drule tenant_Inr) simp

lemma tenant_directIngressRules:
  "tenant d config key s = Inr s' \<Longrightarrow>
   directIngressRules s' = addIngressRule (editionIngressRule d config) (directIngressRules s)"
  by (drule tenant_Inr) simp

lemma tenant_shared_nodes:
  "tenant d config key s = Inr s' \<Longrightarrow>
   vpc s' = vpc s \<and> fileSystem s' = fileSystem s \<and> accessPoint s' = accessPoint s \<and>
   cluster s' = cluster s \<and> groups s' = groups s \<and> roles s' = roles s \<and>
   launchTemplate s' = launchTemplate s \<and> topics s' = topics s \<and>
   subscriptions s' = subscriptions s \<and> publishGrants s' = publishGrants s"
  by (drule tenant_Inr) simp

text \<open>The rule of the edition is added by the first pass and found again by every later one.\<close>

lemma addIngressRule_first: "addIngressRule r [] = [r]"
  by (simp add: addIngressRule_def)

lemma addIngressRule_again: "addIngressRule r [r] = [r]"
  by (simp add: addIngressRule_def ingressRulesEqual_def)

lemma forEach_rule_kept:
  "forEach (tenant d config) ks s = Inr s' \<Longrightarrow>
   directIngressRules s = [editionIngressRule d config] \<Longrightarrow>
   directIngressRules s' = [editionIngressRule d config]"
proof (induction ks arbitrary: s)
  case Nil
  then show ?case by simp
next
  case (Cons k ks)
  then obtain s1 where b: "tenant d config k s = Inr s1"
    and r: "forEach (tenant d config) ks s1 = Inr s'"
    by (auto split: sum.splits)
  from tenant_directIngressRules[OF b] Cons.prems(2)
  have "directIngressRules s1 = [editionIngressRule d config]"
    by (simp add: addIngressRule_again)
  with Cons.IH[OF r] show ?case .
qed

lemma forEach_rule_added:
  assumes "forEach (tenant d config) ks s = Inr s'" and "directIngressRules s = []"
  shows "directIngressRules s' = (if ks = [] then [] else [editionIngressRule d config])"
proof (cases ks)
  case Nil
  with assms show ?thesis by simp
next
  case (Cons k ks')
  with assms(1) obtain s1 where b: "tenant d config k s = Inr s1"
    and r: "forEach (tenant d config) ks' s1 = Inr s'"
    by (auto split: sum.splits)
  from tenant_directIngressRules[OF b] assms(2)
  have "directIngressRules s1 = [editionIngressRule d config]"
    by (simp add: addIngressRule_first)
  with forEach_rule_kept[OF r] Cons show ?thesis by simp
qed

lemma stack_directIngressRules:
  "MinecraftStack d config = Inr t \<Longrightarrow>
   directIngressRules t =
     (if Object_keys (minecraftServerDefs config) = [] then [] else [editionIngressRule d config])"
  unfolding MinecraftStack_def
  by (drule forEach_rule_added) (simp_all add: shared_def)

lemma stack_taskDefinitions:
  assumes "MinecraftStack d config = Inr t"
  shows "taskDefinitions t =
     map (\<lambda>k. taskDefinition d k (readProp config k ''memory'') (readProp config k ''cpu''))
       (Object_keys (minecraftServerDefs config))"
  using forEach_append1[where f = taskDefinitions and body = "tenant d config",
      OF tenant_taskDefinitions, OF _ assms[unfolded MinecraftStack_def]]
  by (simp add: shared_def)

lemma stack_services:
  assumes "MinecraftStack d config = Inr t"
  shows "services t = map (minecraftServerService d config) (Object_keys (minecraftServerDefs config))"
  using forEach_append1[where f = services and body = "tenant d config",
      OF tenant_services, OF _ assms[unfolded MinecraftStack_def]]
  by (simp add: shared_def)

lemma stack_containers:
  assumes "MinecraftStack d config = Inr t"
  shows "containers t =
     concat (map (\<lambda>k. [minecraftServerContainer d config k (readProp config k ''containerEnv''),
                        watchdogContainer d config k])
       (Object_keys (minecraftServerDefs config)))"
  using forEach_append[where f = containers and body = "tenant d config",
      OF tenant_containers, OF _ assms[unfolded MinecraftStack_def]]
  by (simp add: shared_def)

lemma stack_mountPoints:
  assumes "MinecraftStack d config = Inr t"
  shows "mountPoints t =
     concat (map (\<lambda>k. [(''ServerContainer-'' @ k, minecraftMount d),
                        (''WatchDogContainer-'' @ k, minecraftMount d)])
       (Object_keys (minecraftServerDefs config)))"
  using forEach_append[where f = mountPoints and body = "tenant d config",
      OF tenant_mountPoints, OF _ assms[unfolded MinecraftStack_def]]
  by (simp add: shared_def)

lemma stack_policies:
  assumes "MinecraftStack d config = Inr t"
  shows "policies t = [efsReadWriteDataPolicy, ssmManagedInstanceCorePolicy] @
     concat (map (\<lambda>k. [serviceControlPolicy d k, iamRoute53Policy d k])
       (Object_keys (minecraftServerDefs config)))"
  using forEach_append[where f = policies and body = "tenant d config",
      OF tenant_policies, OF _ assms[unfolded MinecraftStack_def]]
  by (simp add: shared_def)

lemma stack_attachments:
  assumes "MinecraftStack d config = Inr t"
  shows "attachments t =
     [(''DataRWPolicy'', ''TaskRole''),
      (''SSMManagedInstanceCorePolicy'', ''EFSMaintenanceRole''),
      (''DataRWPolicy'', ''EFSMaintenanceRole'')] @
     concat (map (\<lambda>k. [(''ServiceControlPolicy-'' @ k, ''TaskRole''),
                        (''ServiceControlPolicy-'' @ k, ''LauncherLambdaRole-'' @ k),
                        (''IamRoute53Policy-'' @ k, ''TaskRole'')])
       (Object_keys (minecraftServerDefs config)))"
  using forEach_append[where f = attachments and body = "tenant d config",
      OF tenant_attachments, OF _ assms[unfolded MinecraftStack_def]]
  by (simp add: shared_def)

lemma stack_shared_nodes:
  assumes "MinecraftStack d config = Inr t"
  shows "vpc t = vpc (shared d config) \<and> fileSystem t = fileSystem (shared d config) \<and>
     accessPoint t = accessPoint (shared d config) \<and> cluster t = cluster (shared d config) \<and>
     groups t = groups (shared d config) \<and> roles t = roles (shared d config) \<and>
     launchTemplate t = launchTemplate (shared d config) \<and> topics t = topics (shared d config) \<and>
     subscriptions t = subscriptions (shared d config) \<and>
     publishGrants t = publishGrants (shared d config)"
  using forEach_const[where body = "tenant d config"
      and f = "\<lambda>s. (vpc s, fileSystem s, accessPoint s, cluster s, groups s, roles s,
                     launchTemplate s, topics s, subscriptions s, publishGrants s)",
      OF _ assms[unfolded MinecraftStack_def]]
    tenant_shared_nodes[of d config]
  by simp

text \<open>As modelled, the constructor returns when no tenant's definition is \<^verbatim>\<open>null\<close>, and only then (\<open>stack_ran\<close> below).\<close>

lemma stack_ok:
  assumes "\<And>k. k \<in> set (Object_keys (minecraftServerDefs config)) \<Longrightarrow>
             map_of (minecraftServerDefs config) k \<noteq> Some JNull"
  shows "\<exists>t. MinecraftStack d config = Inr t"
  unfolding MinecraftStack_def
proof (rule forEach_ok)
  fix k s
  assume k: "k \<in> set (Object_keys (minecraftServerDefs config))"
  then have "map_of (minecraftServerDefs config) k \<noteq> None"
    by (simp add: Object_keys_def map_of_eq_None_iff)
  with assms[OF k] show "\<exists>s'. tenant d config k s = Inr s'"
    by (simp add: tenant_ok_iff)
qed

lemma sample_ok: "\<exists>t. MinecraftStack sampleDeps sampleConfig = Inr t"
  by (rule stack_ok) (auto simp: sampleConfig_def sampleDefs_def Object_keys_def)

lemma sample_keys: "Object_keys (minecraftServerDefs sampleConfig) = [''server1'', ''server2'']"
  by (simp add: Object_keys_def sampleConfig_def sampleDefs_def)

lemma sample_run: "MinecraftStack sampleDeps sampleConfig = Inr sampleStack"
  using sample_ok by (auto simp: sampleStack_def)

lemma forEach_ran:
  "forEach body ks s = Inr s' \<Longrightarrow> k \<in> set ks \<Longrightarrow> \<exists>s0 s1. body k s0 = Inr s1"
proof (induction ks arbitrary: s)
  case Nil
  then show ?case by simp
next
  case (Cons a ks)
  then obtain s1 where b: "body a s = Inr s1" and r: "forEach body ks s1 = Inr s'"
    by (auto split: sum.splits)
  show ?case
  proof (cases "k = a")
    case True
    with b show ?thesis by blast
  next
    case False
    with Cons.prems(2) have "k \<in> set ks" by simp
    from Cons.IH[OF r this] show ?thesis .
  qed
qed

lemma stack_ran:
  assumes "MinecraftStack d config = Inr t"
    and "k \<in> set (Object_keys (minecraftServerDefs config))"
  shows "map_of (minecraftServerDefs config) k \<noteq> Some JNull"
proof -
  from forEach_ran[OF assms(1)[unfolded MinecraftStack_def] assms(2)]
  obtain s0 s1 where "tenant d config k s0 = Inr s1" by blast
  then have "\<exists>s'. tenant d config k s0 = Inr s'" by blast
  then show ?thesis by (simp add: tenant_ok_iff)
qed

lemma sample_email_ok: "\<exists>t. MinecraftStack sampleDeps sampleConfigWithEmail = Inr t"
  by (rule stack_ok)
     (auto simp: sampleConfigWithEmail_def sampleConfig_def sampleDefs_def Object_keys_def)

text \<open>Identifiers and scopes of the per-tenant constructs.\<close>

lemma containerId_minecraftServerContainer:
  "containerId (minecraftServerContainer d config k e) = ''ServerContainer-'' @ k"
  by (simp add: minecraftServerContainer_def Let_def)

lemma containerId_watchdogContainer:
  "containerId (watchdogContainer d config k) = ''WatchDogContainer-'' @ k"
  by (simp add: watchdogContainer_def)





lemma readProp_object:
  "map_of (minecraftServerDefs config) key = Some (JObj kvs) \<Longrightarrow>
   readProp config key p = map_of kvs p"
  by (simp add: readProp_def)

section \<open>The properties\<close>

subsection \<open>C1: one ingress rule, whatever the number of tenants\<close>

text \<open>
  C1. When the tenant map has two or more keys (all of them of the one configured
  edition), the service security group ends up with exactly one ingress rule, the one
  for the edition's port, open to every address; and a further pass of the loop body on
  a stack that already holds this rule leaves the rules as they are. The loop body asks
  for the rule once per key; the group keeps one because an equal rule is not added twice.
\<close>

theorem same_edition_one_ingress_rule:
  assumes "MinecraftStack d config = Inr t"
    and "2 \<le> length (Object_keys (minecraftServerDefs config))"
  shows "directIngressRules t =
           [\<lparr> peer = anyIpv4,
              connection = ingressRulePort (getMinecraftServerConfig d (minecraftEdition config)),
              ruleDescription = ''Minecraft-Server-Ingress-'' @
                portString (ingressRulePort (getMinecraftServerConfig d (minecraftEdition config))) \<rparr>] \<and>
         (\<forall>key s s'.
            directIngressRules s = directIngressRules t \<and> tenant d config key s = Inr s'
              \<longrightarrow> directIngressRules s' = directIngressRules t)"
proof (intro conjI allI impI)
  from assms(2) have ne: "Object_keys (minecraftServerDefs config) \<noteq> []"
    by auto
  with stack_directIngressRules[OF assms(1)]
  have r: "directIngressRules t = [editionIngressRule d config]"
    by simp
  then show "directIngressRules t =
           [\<lparr> peer = anyIpv4,
              connection = ingressRulePort (getMinecraftServerConfig d (minecraftEdition config)),
              ruleDescription = ''Minecraft-Server-Ingress-'' @
                portString (ingressRulePort (getMinecraftServerConfig d (minecraftEdition config))) \<rparr>]"
    by (simp add: editionIngressRule_def Let_def)
  fix key s s'
  assume a: "directIngressRules s = directIngressRules t \<and> tenant d config key s = Inr s'"
  then have same: "directIngressRules s = directIngressRules t"
    and step: "tenant d config key s = Inr s'"
    by simp_all
  from tenant_directIngressRules[OF step] same r
  show "directIngressRules s' = directIngressRules t"
    by (simp add: addIngressRule_again)
qed

theorem same_edition_one_ingress_rule_witness:
  "MinecraftStack sampleDeps sampleConfig = Inr sampleStack \<and>
   length (Object_keys (minecraftServerDefs sampleConfig)) = 2 \<and>
   directIngressRules sampleStack =
     [\<lparr> peer = ''0.0.0.0/0'',
        connection = \<lparr> portProtocol = UDP, fromPort = 19132, toPort = 19132, portString = ''UDP 19132'' \<rparr>,
        ruleDescription = ''Minecraft-Server-Ingress-UDP 19132'' \<rparr>]"
proof (intro conjI)
  show "MinecraftStack sampleDeps sampleConfig = Inr sampleStack"
    by (rule sample_run)
  show "length (Object_keys (minecraftServerDefs sampleConfig)) = 2"
    by (simp add: sample_keys)
  have n: "2 \<le> length (Object_keys (minecraftServerDefs sampleConfig))"
    by (simp add: sample_keys)
  from same_edition_one_ingress_rule[OF sample_run n]
  show "directIngressRules sampleStack =
     [\<lparr> peer = ''0.0.0.0/0'',
        connection = \<lparr> portProtocol = UDP, fromPort = 19132, toPort = 19132, portString = ''UDP 19132'' \<rparr>,
        ruleDescription = ''Minecraft-Server-Ingress-UDP 19132'' \<rparr>]"
    by (simp add: sampleConfig_def sampleDeps_def anyIpv4_def)
qed

subsection \<open>C2: a tenant without cpu or memory\<close>

text \<open>
  C2, as stated, fails. The claim has the build fail, naming the key, when a tenant's
  definition lacks \<^verbatim>\<open>cpu\<close> or \<^verbatim>\<open>memory\<close>. Neither tenant of the sample deployment
  has either field, and the constructor returns: both task definitions are there, with
  \<^verbatim>\<open>cpu\<close> and \<^verbatim>\<open>memoryLimitMiB\<close> undefined, and so are both services and all four
  containers.
\<close>

theorem missing_cpu_memory_counterexample:
  "MinecraftStack sampleDeps sampleConfig = Inr sampleStack \<and>
   map (\<lambda>kv. (fst kv, map fst (ownEnumerable (snd kv)))) (minecraftServerDefs sampleConfig) =
     [(''server1'', [''cloudWatchTriggerEnabled'', ''functionUrlEnabled'', ''containerEnv'']),
      (''server2'', [''cloudWatchTriggerEnabled'', ''functionUrlEnabled'', ''containerEnv''])] \<and>
   map (\<lambda>td. (taskDefinitionId td, cpu td, memoryLimitMiB td)) (taskDefinitions sampleStack) =
     [(''TaskDefinition-server1'', None, None),
      (''TaskDefinition-server2'', None, None)] \<and>
   map serviceId (services sampleStack) = [''FargateService-server1'', ''FargateService-server2''] \<and>
   map containerId (containers sampleStack) =
     [''ServerContainer-server1'', ''WatchDogContainer-server1'',
      ''ServerContainer-server2'', ''WatchDogContainer-server2'']"
proof (intro conjI)
  show "MinecraftStack sampleDeps sampleConfig = Inr sampleStack"
    by (rule sample_run)
  show "map (\<lambda>kv. (fst kv, map fst (ownEnumerable (snd kv)))) (minecraftServerDefs sampleConfig) =
     [(''server1'', [''cloudWatchTriggerEnabled'', ''functionUrlEnabled'', ''containerEnv'']),
      (''server2'', [''cloudWatchTriggerEnabled'', ''functionUrlEnabled'', ''containerEnv''])]"
    by (simp add: sampleConfig_def sampleDefs_def)
  have r: "readProp sampleConfig ''server1'' ''cpu'' = None"
    "readProp sampleConfig ''server1'' ''memory'' = None"
    "readProp sampleConfig ''server2'' ''cpu'' = None"
    "readProp sampleConfig ''server2'' ''memory'' = None"
    by (simp_all add: readProp_def sampleConfig_def sampleDefs_def)
  show "map (\<lambda>td. (taskDefinitionId td, cpu td, memoryLimitMiB td)) (taskDefinitions sampleStack) =
     [(''TaskDefinition-server1'', None, None),
      (''TaskDefinition-server2'', None, None)]"
    by (simp add: stack_taskDefinitions[OF sample_run] sample_keys taskDefinition_def r)
  show "map serviceId (services sampleStack) = [''FargateService-server1'', ''FargateService-server2'']"
    by (simp add: stack_services[OF sample_run] sample_keys minecraftServerService_def)
  show "map containerId (containers sampleStack) =
     [''ServerContainer-server1'', ''WatchDogContainer-server1'',
      ''ServerContainer-server2'', ''WatchDogContainer-server2'']"
    by (simp add: stack_containers[OF sample_run] sample_keys
        minecraftServerContainer_def watchdogContainer_def Let_def)
qed

text \<open>
  C2, amended. The stack has no check of its own for a missing \<^verbatim>\<open>cpu\<close> or \<^verbatim>\<open>memory\<close>
  and fills in no value. Whenever the constructor returns, every key has its task
  definition and its service, and the task definition of a key whose definition is an
  object carries that definition's \<^verbatim>\<open>cpu\<close> and \<^verbatim>\<open>memory\<close> as they are read,
  undefined where the field is absent. Whether the constructor returns is not part of
  the statement: the library's own checks are not modelled.
\<close>

theorem absent_cpu_memory_handed_on:
  assumes "MinecraftStack d config = Inr t"
  shows "map taskDefinitionId (taskDefinitions t) =
           map (\<lambda>key. ''TaskDefinition-'' @ key) (Object_keys (minecraftServerDefs config)) \<and>
         map serviceId (services t) =
           map (\<lambda>key. ''FargateService-'' @ key) (Object_keys (minecraftServerDefs config)) \<and>
         (\<forall>key \<in> set (Object_keys (minecraftServerDefs config)).
            \<exists>td \<in> set (taskDefinitions t). taskDefinitionId td = ''TaskDefinition-'' @ key) \<and>
         (\<forall>td \<in> set (taskDefinitions t). \<forall>key kvs.
            taskDefinitionId td = ''TaskDefinition-'' @ key \<and>
            map_of (minecraftServerDefs config) key = Some (JObj kvs) \<longrightarrow>
              cpu td = map_of kvs ''cpu'' \<and> memoryLimitMiB td = map_of kvs ''memory'')"
proof (intro conjI ballI allI impI)
  show ids: "map taskDefinitionId (taskDefinitions t) =
             map (\<lambda>key. ''TaskDefinition-'' @ key) (Object_keys (minecraftServerDefs config))"
    by (simp add: stack_taskDefinitions[OF assms] taskDefinition_def)
  show "map serviceId (services t) =
             map (\<lambda>key. ''FargateService-'' @ key) (Object_keys (minecraftServerDefs config))"
    by (simp add: stack_services[OF assms] minecraftServerService_def)
next
  fix key assume "key \<in> set (Object_keys (minecraftServerDefs config))"
  then show "\<exists>td \<in> set (taskDefinitions t). taskDefinitionId td = ''TaskDefinition-'' @ key"
    by (auto simp: stack_taskDefinitions[OF assms] taskDefinition_def intro!: bexI[of _ key])
next
  fix td key kvs
  assume td: "td \<in> set (taskDefinitions t)"
    and a: "taskDefinitionId td = ''TaskDefinition-'' @ key \<and>
            map_of (minecraftServerDefs config) key = Some (JObj kvs)"
  from td obtain k where
    k: "td = taskDefinition d k (readProp config k ''memory'') (readProp config k ''cpu'')"
    by (auto simp: stack_taskDefinitions[OF assms])
  with a have "k = key"
    by (simp add: taskDefinition_def)
  with k a show "cpu td = map_of kvs ''cpu''" "memoryLimitMiB td = map_of kvs ''memory''"
    by (simp_all add: taskDefinition_def readProp_object)
qed

theorem absent_cpu_memory_handed_on_witness:
  "MinecraftStack sampleDeps sampleConfig = Inr sampleStack \<and>
   map_of (minecraftServerDefs sampleConfig) ''server1'' =
     Some (JObj [(''cloudWatchTriggerEnabled'', JBool False),
                 (''functionUrlEnabled'', JBool True),
                 (''containerEnv'',
                  JObj [(''DATA_SUBPATH'', JStr ''server1-data''),
                        (''QuietCurl'', JStr ''Y''),
                        (''NoPermCheck'', JStr ''Y'')])]) \<and>
   (\<exists>td \<in> set (taskDefinitions sampleStack).
      taskDefinitionId td = ''TaskDefinition-server1'' \<and>
      cpu td = None \<and> memoryLimitMiB td = None)"
proof (intro conjI)
  show "MinecraftStack sampleDeps sampleConfig = Inr sampleStack"
    by (rule sample_run)
  show def1: "map_of (minecraftServerDefs sampleConfig) ''server1'' =
     Some (JObj [(''cloudWatchTriggerEnabled'', JBool False),
                 (''functionUrlEnabled'', JBool True),
                 (''containerEnv'',
                  JObj [(''DATA_SUBPATH'', JStr ''server1-data''),
                        (''QuietCurl'', JStr ''Y''),
                        (''NoPermCheck'', JStr ''Y'')])])"
    by (simp add: sampleConfig_def sampleDefs_def)
  note th = absent_cpu_memory_handed_on[OF sample_run]
  have k: "''server1'' \<in> set (Object_keys (minecraftServerDefs sampleConfig))"
    by (simp add: sample_keys)
  from th have "\<forall>key \<in> set (Object_keys (minecraftServerDefs sampleConfig)).
            \<exists>td \<in> set (taskDefinitions sampleStack). taskDefinitionId td = ''TaskDefinition-'' @ key"
    by (elim conjE)
  from bspec[OF this k] obtain td where td: "td \<in> set (taskDefinitions sampleStack)"
    and tid: "taskDefinitionId td = ''TaskDefinition-'' @ ''server1''"
    by (elim bexE)
  from th have "\<forall>td \<in> set (taskDefinitions sampleStack). \<forall>key kvs.
            taskDefinitionId td = ''TaskDefinition-'' @ key \<and>
            map_of (minecraftServerDefs sampleConfig) key = Some (JObj kvs) \<longrightarrow>
              cpu td = map_of kvs ''cpu'' \<and> memoryLimitMiB td = map_of kvs ''memory''"
    by (elim conjE)
  note inst = bspec[OF this td, THEN spec, THEN spec, THEN mp, OF conjI[OF tid def1]]
  from inst
  have "cpu td = map_of [(''cloudWatchTriggerEnabled'', JBool False),
                 (''functionUrlEnabled'', JBool True),
                 (''containerEnv'',
                  JObj [(''DATA_SUBPATH'', JStr ''server1-data''),
                        (''QuietCurl'', JStr ''Y''),
                        (''NoPermCheck'', JStr ''Y'')])] ''cpu'' \<and>
        memoryLimitMiB td = map_of [(''cloudWatchTriggerEnabled'', JBool False),
                 (''functionUrlEnabled'', JBool True),
                 (''containerEnv'',
                  JObj [(''DATA_SUBPATH'', JStr ''server1-data''),
                        (''QuietCurl'', JStr ''Y''),
                        (''NoPermCheck'', JStr ''Y'')])] ''memory''" .
  then have "cpu td = None \<and> memoryLimitMiB td = None"
    by simp
  with td tid show "\<exists>td \<in> set (taskDefinitions sampleStack).
      taskDefinitionId td = ''TaskDefinition-server1'' \<and>
      cpu td = None \<and> memoryLimitMiB td = None"
    by (intro bexI[of _ td]) simp_all
qed

subsection \<open>C3: what a tenant's policies name\<close>




subsection \<open>C4: one task role for every tenant\<close>

text \<open>
  C4. There is one task role, created before the loop. Every task definition refers to
  it, and for every pair of tenant keys the role of the first key's task definition has
  the second key's service-control policy and DNS-edit policy attached: each tenant's
  task carries the permissions of all tenants.
\<close>

theorem task_role_shared_by_all_tenants:
  assumes "MinecraftStack d config = Inr t"
  shows "map roleId (roles t) = [''TaskRole'', ''EFSMaintenanceRole''] \<and>
         (\<forall>td \<in> set (taskDefinitions t). taskRole td = ''TaskRole'') \<and>
         (\<forall>k1 \<in> set (Object_keys (minecraftServerDefs config)).
          \<forall>k2 \<in> set (Object_keys (minecraftServerDefs config)).
            \<exists>td \<in> set (taskDefinitions t).
              taskDefinitionId td = ''TaskDefinition-'' @ k1 \<and>
              serviceControlPolicy d k2 \<in> set (attachedPolicies t (taskRole td)) \<and>
              iamRoute53Policy d k2 \<in> set (attachedPolicies t (taskRole td)))"
proof (intro conjI ballI)
  have "roles t = roles (shared d config)"
    using stack_shared_nodes[OF assms] by simp
  then show "map roleId (roles t) = [''TaskRole'', ''EFSMaintenanceRole'']"
    by (simp add: shared_def)
next
  fix td assume "td \<in> set (taskDefinitions t)"
  then show "taskRole td = ''TaskRole''"
    by (auto simp: stack_taskDefinitions[OF assms] taskDefinition_def)
next
  fix k1 k2
  assume k1: "k1 \<in> set (Object_keys (minecraftServerDefs config))"
    and k2: "k2 \<in> set (Object_keys (minecraftServerDefs config))"
  let ?td = "taskDefinition d k1 (readProp config k1 ''memory'') (readProp config k1 ''cpu'')"
  have td: "?td \<in> set (taskDefinitions t)"
    using k1 by (simp add: stack_taskDefinitions[OF assms])
  have role: "taskRole ?td = ''TaskRole''" and tid: "taskDefinitionId ?td = ''TaskDefinition-'' @ k1"
    by (simp_all add: taskDefinition_def)
  have p1: "serviceControlPolicy d k2 \<in> set (policies t)"
    and p2: "iamRoute53Policy d k2 \<in> set (policies t)"
    using k2 by (auto simp: stack_policies[OF assms])
  have a1: "(''ServiceControlPolicy-'' @ k2, ''TaskRole'') \<in> set (attachments t)"
    and a2: "(''IamRoute53Policy-'' @ k2, ''TaskRole'') \<in> set (attachments t)"
    using k2 by (auto simp: stack_attachments[OF assms])
  have "serviceControlPolicy d k2 \<in> set (attachedPolicies t ''TaskRole'')"
    using p1 a1 by (simp add: attachedPolicies_def serviceControlPolicy_def)
  moreover have "iamRoute53Policy d k2 \<in> set (attachedPolicies t ''TaskRole'')"
    using p2 a2 by (simp add: attachedPolicies_def iamRoute53Policy_def)
  ultimately show "\<exists>td \<in> set (taskDefinitions t).
              taskDefinitionId td = ''TaskDefinition-'' @ k1 \<and>
              serviceControlPolicy d k2 \<in> set (attachedPolicies t (taskRole td)) \<and>
              iamRoute53Policy d k2 \<in> set (attachedPolicies t (taskRole td))"
    using td role tid by metis
qed

theorem task_role_shared_by_all_tenants_witness:
  "MinecraftStack sampleDeps sampleConfig = Inr sampleStack \<and>
   map taskRole (taskDefinitions sampleStack) = [''TaskRole'', ''TaskRole''] \<and>
   serviceControlPolicy sampleDeps ''server2'' \<in> set (attachedPolicies sampleStack ''TaskRole'') \<and>
   iamRoute53Policy sampleDeps ''server2'' \<in> set (attachedPolicies sampleStack ''TaskRole'')"
proof -
  note th = task_role_shared_by_all_tenants[OF sample_run]
  from th have r: "\<forall>td \<in> set (taskDefinitions sampleStack). taskRole td = ''TaskRole''"
    by simp
  have k1: "''server1'' \<in> set (Object_keys (minecraftServerDefs sampleConfig))"
    and k2: "''server2'' \<in> set (Object_keys (minecraftServerDefs sampleConfig))"
    by (simp_all add: sample_keys)
  from th have "\<forall>k1 \<in> set (Object_keys (minecraftServerDefs sampleConfig)).
          \<forall>k2 \<in> set (Object_keys (minecraftServerDefs sampleConfig)).
            \<exists>td \<in> set (taskDefinitions sampleStack).
              taskDefinitionId td = ''TaskDefinition-'' @ k1 \<and>
              serviceControlPolicy sampleDeps k2 \<in> set (attachedPolicies sampleStack (taskRole td)) \<and>
              iamRoute53Policy sampleDeps k2 \<in> set (attachedPolicies sampleStack (taskRole td))"
    by blast
  from bspec[OF bspec[OF this k1] k2] obtain td where
    "td \<in> set (taskDefinitions sampleStack)"
    "serviceControlPolicy sampleDeps ''server2'' \<in> set (attachedPolicies sampleStack (taskRole td))"
    "iamRoute53Policy sampleDeps ''server2'' \<in> set (attachedPolicies sampleStack (taskRole td))"
    by blast
  with r have a: "serviceControlPolicy sampleDeps ''server2'' \<in> set (attachedPolicies sampleStack ''TaskRole'')"
    "iamRoute53Policy sampleDeps ''server2'' \<in> set (attachedPolicies sampleStack ''TaskRole'')"
    by auto
  have m: "map taskRole (taskDefinitions sampleStack) = [''TaskRole'', ''TaskRole'']"
    by (simp add: stack_taskDefinitions[OF sample_run] sample_keys taskDefinition_def)
  from a m sample_run show ?thesis by simp
qed

subsection \<open>C5: a tenant map that is not JSON\<close>

text \<open>
  C5. When the text of \<^verbatim>\<open>MINECRAFT_SERVER_DEFS_JSON\<close> is not valid JSON, so that parsing
  it throws, resolving the tenant map returns the empty map and writes the diagnostic;
  loading the configuration returns with that empty map, and the constructor on it
  returns the shared part, with no task definition, container or service.
\<close>

theorem malformed_tenant_json_gives_empty_map:
  assumes "JSON_parse pf s = None"
    and "env ''MINECRAFT_SERVER_DEFS_JSON'' = Some s"
  shows "resolveMinecraftServerDefs pf (Some s) = ([], [diagnostic]) \<and>
         minecraftServerDefs (fst (resolveConfig pf env)) = [] \<and>
         snd (resolveConfig pf env) = [diagnostic] \<and>
         MinecraftStack d (fst (resolveConfig pf env)) = Inr (shared d (fst (resolveConfig pf env))) \<and>
         taskDefinitions (shared d (fst (resolveConfig pf env))) = [] \<and>
         containers (shared d (fst (resolveConfig pf env))) = [] \<and>
         services (shared d (fst (resolveConfig pf env))) = []"
proof -
  have r: "resolveMinecraftServerDefs pf (Some s) = ([], [diagnostic])"
    using assms(1) by (simp add: resolveMinecraftServerDefs_def)
  then have e: "minecraftServerDefs (fst (resolveConfig pf env)) = []"
    and o: "snd (resolveConfig pf env) = [diagnostic]"
    by (simp_all add: resolveConfig_def assms(2))
  from e have "MinecraftStack d (fst (resolveConfig pf env)) = Inr (shared d (fst (resolveConfig pf env)))"
    by (simp add: MinecraftStack_def Object_keys_def)
  moreover have "taskDefinitions (shared d c) = [] \<and> containers (shared d c) = [] \<and>
      services (shared d c) = []" for c
    by (simp add: shared_def)
  ultimately show ?thesis using r e o by blast
qed

theorem malformed_tenant_json_gives_empty_map_witness:
  "JSON_parse samplePlatform ''{not json'' = None \<and>
   sampleEnv ''MINECRAFT_SERVER_DEFS_JSON'' = Some ''{not json'' \<and>
   resolveMinecraftServerDefs samplePlatform (Some ''{not json'') = ([], [diagnostic]) \<and>
   snd (resolveConfig samplePlatform sampleEnv) = [diagnostic] \<and>
   MinecraftStack sampleDeps (fst (resolveConfig samplePlatform sampleEnv)) =
     Inr (shared sampleDeps (fst (resolveConfig samplePlatform sampleEnv))) \<and>
   services (shared sampleDeps (fst (resolveConfig samplePlatform sampleEnv))) = []"
proof -
  have p: "JSON_parse samplePlatform ''{not json'' = None"
    by (simp add: samplePlatform_def)
  have e: "sampleEnv ''MINECRAFT_SERVER_DEFS_JSON'' = Some ''{not json''"
    by (simp add: sampleEnv_def)
  from malformed_tenant_json_gives_empty_map[where pf = samplePlatform and env = sampleEnv
      and d = sampleDeps, OF p e] p e show ?thesis
    by blast
qed

subsection \<open>C6: the notification topic\<close>

text \<open>
  C6. With an operator email configured there is exactly one topic, one email
  subscription to it with that address, and a publish grant to the task role, which is
  the role of every task definition; without one there is none of them and the topic
  identifier is the empty string. In both cases every key has a watchdog container, and
  every container with a watchdog's id has a literal environment whose \<^verbatim>\<open>SNSTOPIC\<close> is
  that one topic identifier.
\<close>

theorem notification_topic_iff_email:
  assumes "MinecraftStack d config = Inr t"
  shows "(snsEmailAddress config \<noteq> [] \<longrightarrow>
            topics t = [\<lparr> topicId = ''ServerSnsTopic'',
                          displayName = ''Minecraft Server Notifications'' \<rparr>] \<and>
            subscriptions t = [\<lparr> subscriptionId = ''EmailSubscription'',
                                 subscriptionProtocol = ''EMAIL'',
                                 topic = ''ServerSnsTopic'',
                                 endpoint = snsEmailAddress config \<rparr>] \<and>
            publishGrants t = [(''ServerSnsTopic'', ''TaskRole'')] \<and>
            snsTopicArn config = Attr ''ServerSnsTopic'' ''topicArn'') \<and>
         (snsEmailAddress config = [] \<longrightarrow>
            topics t = [] \<and> subscriptions t = [] \<and> publishGrants t = [] \<and>
            snsTopicArn config = Plain []) \<and>
         (\<forall>td \<in> set (taskDefinitions t). taskRole td = ''TaskRole'') \<and>
         (\<forall>key \<in> set (Object_keys (minecraftServerDefs config)).
            \<exists>c \<in> set (containers t). containerId c = ''WatchDogContainer-'' @ key) \<and>
         (\<forall>c \<in> set (containers t). \<forall>key.
            containerId c = ''WatchDogContainer-'' @ key \<longrightarrow>
              (\<exists>vars. environment c = Vars vars \<and>
                      map_of vars ''SNSTOPIC'' = Some (snsTopicArn config))) \<and>
         (\<forall>c \<in> set (containers t). \<forall>vars.
            environment c = Vars vars \<longrightarrow> map_of vars ''SNSTOPIC'' = Some (snsTopicArn config))"
proof (intro conjI ballI impI allI)
  note sh = stack_shared_nodes[OF assms]
  show "topics t = [\<lparr> topicId = ''ServerSnsTopic'',
                          displayName = ''Minecraft Server Notifications'' \<rparr>]"
    "subscriptions t = [\<lparr> subscriptionId = ''EmailSubscription'',
                                 subscriptionProtocol = ''EMAIL'',
                                 topic = ''ServerSnsTopic'',
                                 endpoint = snsEmailAddress config \<rparr>]"
    "publishGrants t = [(''ServerSnsTopic'', ''TaskRole'')]"
    "snsTopicArn config = Attr ''ServerSnsTopic'' ''topicArn''"
    if "snsEmailAddress config \<noteq> []"
    using sh that by (simp_all add: shared_def snsTopicArn_def)
  show "topics t = []" "subscriptions t = []" "publishGrants t = []"
    "snsTopicArn config = Plain []"
    if "snsEmailAddress config = []"
    using sh that by (simp_all add: shared_def snsTopicArn_def)
next
  fix td assume "td \<in> set (taskDefinitions t)"
  then show "taskRole td = ''TaskRole''"
    by (auto simp: stack_taskDefinitions[OF assms] taskDefinition_def)
next
  fix key assume "key \<in> set (Object_keys (minecraftServerDefs config))"
  then show "\<exists>c \<in> set (containers t). containerId c = ''WatchDogContainer-'' @ key"
    by (auto simp: stack_containers[OF assms] containerId_watchdogContainer intro!: bexI[of _ key])
next
  fix c key
  assume c: "c \<in> set (containers t)" and cid: "containerId c = ''WatchDogContainer-'' @ key"
  from c obtain k where "c = minecraftServerContainer d config k (readProp config k ''containerEnv'')
      \<or> c = watchdogContainer d config k"
    by (auto simp: stack_containers[OF assms])
  with cid have eq: "c = watchdogContainer d config key"
    by (auto simp: containerId_minecraftServerContainer containerId_watchdogContainer)
  have "environment c = Vars (watchdogEnvironment d config key)"
    by (simp add: eq watchdogContainer_def)
  moreover have "map_of (watchdogEnvironment d config key) ''SNSTOPIC'' = Some (snsTopicArn config)"
    by (simp add: watchdogEnvironment_def)
  ultimately show "\<exists>vars. environment c = Vars vars \<and>
                      map_of vars ''SNSTOPIC'' = Some (snsTopicArn config)"
    by (intro exI[of _ "watchdogEnvironment d config key"] conjI)
next
  fix c vars
  assume c: "c \<in> set (containers t)" and e: "environment c = Vars vars"
  from c obtain k where "c = minecraftServerContainer d config k (readProp config k ''containerEnv'')
      \<or> c = watchdogContainer d config k"
    by (auto simp: stack_containers[OF assms])
  with e have "vars = watchdogEnvironment d config k"
    by (auto simp: minecraftServerContainer_def watchdogContainer_def Let_def)
  then show "map_of vars ''SNSTOPIC'' = Some (snsTopicArn config)"
    by (simp add: watchdogEnvironment_def)
qed

theorem notification_topic_iff_email_witness:
  "MinecraftStack sampleDeps sampleConfig = Inr sampleStack \<and>
   snsEmailAddress sampleConfig = [] \<and>
   topics sampleStack = [] \<and> subscriptions sampleStack = [] \<and>
   snsTopicArn sampleConfig = Plain [] \<and>
   (\<exists>c \<in> set (containers sampleStack).
      containerId c = ''WatchDogContainer-server1'' \<and>
      (\<exists>vars. environment c = Vars vars \<and> map_of vars ''SNSTOPIC'' = Some (Plain []))) \<and>
   (\<exists>t. MinecraftStack sampleDeps sampleConfigWithEmail = Inr t \<and>
      map topicId (topics t) = [''ServerSnsTopic''] \<and>
      map endpoint (subscriptions t) = [''ops@example.com''] \<and>
      publishGrants t = [(''ServerSnsTopic'', ''TaskRole'')] \<and>
      snsTopicArn sampleConfigWithEmail = Attr ''ServerSnsTopic'' ''topicArn'' \<and>
      (\<exists>c \<in> set (containers t).
         containerId c = ''WatchDogContainer-server2'' \<and>
         (\<exists>vars. environment c = Vars vars \<and>
            map_of vars ''SNSTOPIC'' = Some (Attr ''ServerSnsTopic'' ''topicArn''))))"
proof -
  have e0: "snsEmailAddress sampleConfig = []"
    by (simp add: sampleConfig_def)
  note th0 = notification_topic_iff_email[OF sample_run]
  from th0 have "snsEmailAddress sampleConfig = [] \<longrightarrow>
            topics sampleStack = [] \<and> subscriptions sampleStack = [] \<and>
            publishGrants sampleStack = [] \<and> snsTopicArn sampleConfig = Plain []"
    by (elim conjE)
  with e0 have a: "topics sampleStack = []" "subscriptions sampleStack = []"
      "snsTopicArn sampleConfig = Plain []"
    by simp_all
  have k1: "''server1'' \<in> set (Object_keys (minecraftServerDefs sampleConfig))"
    by (simp add: sample_keys)
  from th0 have ex0: "\<forall>key \<in> set (Object_keys (minecraftServerDefs sampleConfig)).
            \<exists>c \<in> set (containers sampleStack). containerId c = ''WatchDogContainer-'' @ key"
    by (elim conjE)
  from th0 have env0: "\<forall>c \<in> set (containers sampleStack). \<forall>key.
            containerId c = ''WatchDogContainer-'' @ key \<longrightarrow>
              (\<exists>vars. environment c = Vars vars \<and>
                      map_of vars ''SNSTOPIC'' = Some (snsTopicArn sampleConfig))"
    by (elim conjE)
  from bspec[OF ex0 k1] obtain c0 where c0: "c0 \<in> set (containers sampleStack)"
    and cid0: "containerId c0 = ''WatchDogContainer-'' @ ''server1''"
    by (elim bexE)
  from bspec[OF env0 c0, THEN spec, THEN mp, OF cid0]
  have "\<exists>vars. environment c0 = Vars vars \<and>
                      map_of vars ''SNSTOPIC'' = Some (snsTopicArn sampleConfig)" .
  with a(3) c0 cid0 have w0: "\<exists>c \<in> set (containers sampleStack).
      containerId c = ''WatchDogContainer-server1'' \<and>
      (\<exists>vars. environment c = Vars vars \<and> map_of vars ''SNSTOPIC'' = Some (Plain []))"
    by (intro bexI[of _ c0]) simp_all
  from sample_email_ok obtain t where t: "MinecraftStack sampleDeps sampleConfigWithEmail = Inr t" ..
  have e1: "snsEmailAddress sampleConfigWithEmail = ''ops@example.com''"
    by (simp add: sampleConfigWithEmail_def)
  note th1 = notification_topic_iff_email[OF t]
  from th1 have "snsEmailAddress sampleConfigWithEmail \<noteq> [] \<longrightarrow>
            topics t = [\<lparr> topicId = ''ServerSnsTopic'',
                          displayName = ''Minecraft Server Notifications'' \<rparr>] \<and>
            subscriptions t = [\<lparr> subscriptionId = ''EmailSubscription'',
                                 subscriptionProtocol = ''EMAIL'',
                                 topic = ''ServerSnsTopic'',
                                 endpoint = snsEmailAddress sampleConfigWithEmail \<rparr>] \<and>
            publishGrants t = [(''ServerSnsTopic'', ''TaskRole'')] \<and>
            snsTopicArn sampleConfigWithEmail = Attr ''ServerSnsTopic'' ''topicArn''"
    by (elim conjE)
  with e1 have b: "map topicId (topics t) = [''ServerSnsTopic'']"
      "map endpoint (subscriptions t) = [''ops@example.com'']"
      "publishGrants t = [(''ServerSnsTopic'', ''TaskRole'')]"
      "snsTopicArn sampleConfigWithEmail = Attr ''ServerSnsTopic'' ''topicArn''"
    by simp_all
  have k2: "''server2'' \<in> set (Object_keys (minecraftServerDefs sampleConfigWithEmail))"
    by (simp add: sampleConfigWithEmail_def sample_keys)
  from th1 have ex1: "\<forall>key \<in> set (Object_keys (minecraftServerDefs sampleConfigWithEmail)).
            \<exists>c \<in> set (containers t). containerId c = ''WatchDogContainer-'' @ key"
    by (elim conjE)
  from th1 have env1: "\<forall>c \<in> set (containers t). \<forall>key.
            containerId c = ''WatchDogContainer-'' @ key \<longrightarrow>
              (\<exists>vars. environment c = Vars vars \<and>
                      map_of vars ''SNSTOPIC'' = Some (snsTopicArn sampleConfigWithEmail))"
    by (elim conjE)
  from bspec[OF ex1 k2] obtain c1 where c1: "c1 \<in> set (containers t)"
    and cid1: "containerId c1 = ''WatchDogContainer-'' @ ''server2''"
    by (elim bexE)
  from bspec[OF env1 c1, THEN spec, THEN mp, OF cid1]
  have "\<exists>vars. environment c1 = Vars vars \<and>
                      map_of vars ''SNSTOPIC'' = Some (snsTopicArn sampleConfigWithEmail)" .
  with b(4) c1 cid1 have w1: "\<exists>c \<in> set (containers t).
         containerId c = ''WatchDogContainer-server2'' \<and>
         (\<exists>vars. environment c = Vars vars \<and>
            map_of vars ''SNSTOPIC'' = Some (Attr ''ServerSnsTopic'' ''topicArn''))"
    by (intro bexI[of _ c1]) simp_all
  have E: "\<exists>t. MinecraftStack sampleDeps sampleConfigWithEmail = Inr t \<and>
      map topicId (topics t) = [''ServerSnsTopic''] \<and>
      map endpoint (subscriptions t) = [''ops@example.com''] \<and>
      publishGrants t = [(''ServerSnsTopic'', ''TaskRole'')] \<and>
      snsTopicArn sampleConfigWithEmail = Attr ''ServerSnsTopic'' ''topicArn'' \<and>
      (\<exists>c \<in> set (containers t).
         containerId c = ''WatchDogContainer-server2'' \<and>
         (\<exists>vars. environment c = Vars vars \<and>
            map_of vars ''SNSTOPIC'' = Some (Attr ''ServerSnsTopic'' ''topicArn'')))"
  proof (rule exI[of _ t], intro conjI)
    show "MinecraftStack sampleDeps sampleConfigWithEmail = Inr t" by (rule t)
    show "map topicId (topics t) = [''ServerSnsTopic'']" by (rule b(1))
    show "map endpoint (subscriptions t) = [''ops@example.com'']" by (rule b(2))
    show "publishGrants t = [(''ServerSnsTopic'', ''TaskRole'')]" by (rule b(3))
    show "snsTopicArn sampleConfigWithEmail = Attr ''ServerSnsTopic'' ''topicArn''" by (rule b(4))
    show "\<exists>c \<in> set (containers t).
         containerId c = ''WatchDogContainer-server2'' \<and>
         (\<exists>vars. environment c = Vars vars \<and>
            map_of vars ''SNSTOPIC'' = Some (Attr ''ServerSnsTopic'' ''topicArn''))" by (rule w1)
  qed
  show ?thesis
  proof (intro conjI)
    show "MinecraftStack sampleDeps sampleConfig = Inr sampleStack" by (rule sample_run)
    show "snsEmailAddress sampleConfig = []" by (rule e0)
    show "topics sampleStack = []" by (rule a(1))
    show "subscriptions sampleStack = []" by (rule a(2))
    show "snsTopicArn sampleConfig = Plain []" by (rule a(3))
    show "\<exists>c \<in> set (containers sampleStack).
      containerId c = ''WatchDogContainer-server1'' \<and>
      (\<exists>vars. environment c = Vars vars \<and> map_of vars ''SNSTOPIC'' = Some (Plain []))"
      by (rule w0)
    show "\<exists>t. MinecraftStack sampleDeps sampleConfigWithEmail = Inr t \<and>
      map topicId (topics t) = [''ServerSnsTopic''] \<and>
      map endpoint (subscriptions t) = [''ops@example.com''] \<and>
      publishGrants t = [(''ServerSnsTopic'', ''TaskRole'')] \<and>
      snsTopicArn sampleConfigWithEmail = Attr ''ServerSnsTopic'' ''topicArn'' \<and>
      (\<exists>c \<in> set (containers t).
         containerId c = ''WatchDogContainer-server2'' \<and>
         (\<exists>vars. environment c = Vars vars \<and>
            map_of vars ''SNSTOPIC'' = Some (Attr ''ServerSnsTopic'' ''topicArn'')))"
      by (rule E)
  qed
qed

subsection \<open>C7: the watchdog sidecar\<close>

text \<open>
  C7. For every tenant key there is a watchdog container, and any container with its
  id is essential, belongs to the key's task definition and has exactly this
  environment: the cluster name, the service name (the shared prefix, a dash and the
  key), the hosted zone id read from the other stack, the host name (the key, a dot and
  the domain), the topic identifier or the empty string, the four Twilio values, and
  the startup and shutdown minutes. Its one mount point is the server container's:
  \<^verbatim>\<open>/minecraft\<close> on the shared volume, writable. The key's service bears the name in
  \<^verbatim>\<open>SERVICE\<close>.
\<close>

theorem watchdog_sidecar_contract:
  assumes "MinecraftStack d config = Inr t"
    and "key \<in> set (Object_keys (minecraftServerDefs config))"
  shows "(\<exists>c \<in> set (containers t). containerId c = ''WatchDogContainer-'' @ key) \<and>
         (\<forall>c \<in> set (containers t). containerId c = ''WatchDogContainer-'' @ key \<longrightarrow>
            essential c \<and>
            containerTaskDefinition c = ''TaskDefinition-'' @ key \<and>
            environment c = Vars
              [(''CLUSTER'', Plain (CLUSTER_NAME (constants d))),
               (''SERVICE'', Plain (SERVICE_NAME (constants d) @ ''-'' @ key)),
               (''DNSZONE'', Plain (getParameterValue d (HOSTED_ZONE_SSM_PARAMETER (constants d))
                                      (DOMAIN_STACK_REGION (constants d)))),
               (''SERVERNAME'', Plain (key @ ''.'' @ domainName config)),
               (''SNSTOPIC'', (if snsEmailAddress config \<noteq> []
                               then Attr ''ServerSnsTopic'' ''topicArn'' else Plain [])),
               (''TWILIOFROM'', Plain (phoneFrom (twilio config))),
               (''TWILIOTO'', Plain (phoneTo (twilio config))),
               (''TWILIOAID'', Plain (accountId (twilio config))),
               (''TWILIOAUTH'', Plain (authCode (twilio config))),
               (''STARTUPMIN'', Plain (startupMinutes config)),
               (''SHUTDOWNMIN'', Plain (shutdownMinutes config))]) \<and>
         (\<forall>m. (''WatchDogContainer-'' @ key, m) \<in> set (mountPoints t) \<longleftrightarrow>
              m = \<lparr> containerPath = ''/minecraft'', sourceVolume = ECS_VOLUME_NAME (constants d),
                    readOnly = False \<rparr>) \<and>
         (\<forall>m. (''ServerContainer-'' @ key, m) \<in> set (mountPoints t) \<longleftrightarrow>
              m = \<lparr> containerPath = ''/minecraft'', sourceVolume = ECS_VOLUME_NAME (constants d),
                    readOnly = False \<rparr>) \<and>
         (\<exists>svc \<in> set (services t).
            serviceId svc = ''FargateService-'' @ key \<and>
            serviceName svc = SERVICE_NAME (constants d) @ ''-'' @ key)"
proof (intro conjI ballI impI allI)
  show "\<exists>c \<in> set (containers t). containerId c = ''WatchDogContainer-'' @ key"
    using assms(2)
    by (auto simp: stack_containers[OF assms(1)] containerId_watchdogContainer intro!: bexI[of _ key])
next
  fix c
  assume c: "c \<in> set (containers t)" and cid: "containerId c = ''WatchDogContainer-'' @ key"
  from c obtain k where "c = minecraftServerContainer d config k (readProp config k ''containerEnv'')
      \<or> c = watchdogContainer d config k"
    by (auto simp: stack_containers[OF assms(1)])
  with cid have eq: "c = watchdogContainer d config key"
    by (auto simp: containerId_minecraftServerContainer containerId_watchdogContainer)
  show "essential c" "containerTaskDefinition c = ''TaskDefinition-'' @ key"
    by (simp_all add: eq watchdogContainer_def)
  show "environment c = Vars
              [(''CLUSTER'', Plain (CLUSTER_NAME (constants d))),
               (''SERVICE'', Plain (SERVICE_NAME (constants d) @ ''-'' @ key)),
               (''DNSZONE'', Plain (getParameterValue d (HOSTED_ZONE_SSM_PARAMETER (constants d))
                                      (DOMAIN_STACK_REGION (constants d)))),
               (''SERVERNAME'', Plain (key @ ''.'' @ domainName config)),
               (''SNSTOPIC'', (if snsEmailAddress config \<noteq> []
                               then Attr ''ServerSnsTopic'' ''topicArn'' else Plain [])),
               (''TWILIOFROM'', Plain (phoneFrom (twilio config))),
               (''TWILIOTO'', Plain (phoneTo (twilio config))),
               (''TWILIOAID'', Plain (accountId (twilio config))),
               (''TWILIOAUTH'', Plain (authCode (twilio config))),
               (''STARTUPMIN'', Plain (startupMinutes config)),
               (''SHUTDOWNMIN'', Plain (shutdownMinutes config))]"
    by (simp add: eq watchdogContainer_def watchdogEnvironment_def hostedZoneId_def snsTopicArn_def)
next
  fix m
  show "(''WatchDogContainer-'' @ key, m) \<in> set (mountPoints t) \<longleftrightarrow>
              m = \<lparr> containerPath = ''/minecraft'', sourceVolume = ECS_VOLUME_NAME (constants d),
                    readOnly = False \<rparr>"
    using assms(2)
    by (auto simp: stack_mountPoints[OF assms(1)] minecraftMount_def)
next
  fix m
  show "(''ServerContainer-'' @ key, m) \<in> set (mountPoints t) \<longleftrightarrow>
              m = \<lparr> containerPath = ''/minecraft'', sourceVolume = ECS_VOLUME_NAME (constants d),
                    readOnly = False \<rparr>"
    using assms(2)
    by (auto simp: stack_mountPoints[OF assms(1)] minecraftMount_def)
next
  show "\<exists>svc \<in> set (services t).
            serviceId svc = ''FargateService-'' @ key \<and>
            serviceName svc = SERVICE_NAME (constants d) @ ''-'' @ key"
    using assms(2)
    by (auto simp: stack_services[OF assms(1)] minecraftServerService_def)
qed

theorem watchdog_sidecar_contract_witness:
  "MinecraftStack sampleDeps sampleConfig = Inr sampleStack \<and>
   ''server1'' \<in> set (Object_keys (minecraftServerDefs sampleConfig)) \<and>
   (\<exists>c \<in> set (containers sampleStack).
      containerId c = ''WatchDogContainer-server1'' \<and>
      essential c \<and>
      environment c = Vars
        [(''CLUSTER'', Plain ''minecraft''),
         (''SERVICE'', Plain ''minecraft-server-server1''),
         (''DNSZONE'', Plain ''value:MinecraftHostedZoneID@us-east-1''),
         (''SERVERNAME'', Plain ''server1.minecraft.example.com''),
         (''SNSTOPIC'', Plain []),
         (''TWILIOFROM'', Plain []),
         (''TWILIOTO'', Plain []),
         (''TWILIOAID'', Plain []),
         (''TWILIOAUTH'', Plain []),
         (''STARTUPMIN'', Plain ''5''),
         (''SHUTDOWNMIN'', Plain ''10'')])"
proof (intro conjI)
  show "MinecraftStack sampleDeps sampleConfig = Inr sampleStack"
    by (rule sample_run)
  show k: "''server1'' \<in> set (Object_keys (minecraftServerDefs sampleConfig))"
    by (simp add: sample_keys)
  note th = watchdog_sidecar_contract[OF sample_run k]
  from th obtain c where c: "c \<in> set (containers sampleStack)"
    and cid: "containerId c = ''WatchDogContainer-'' @ ''server1''"
    by blast
  from th c cid have "essential c \<and>
      environment c = Vars
        [(''CLUSTER'', Plain (CLUSTER_NAME (constants sampleDeps))),
         (''SERVICE'', Plain (SERVICE_NAME (constants sampleDeps) @ ''-'' @ ''server1'')),
         (''DNSZONE'', Plain (getParameterValue sampleDeps
                                (HOSTED_ZONE_SSM_PARAMETER (constants sampleDeps))
                                (DOMAIN_STACK_REGION (constants sampleDeps)))),
         (''SERVERNAME'', Plain (''server1'' @ ''.'' @ domainName sampleConfig)),
         (''SNSTOPIC'', (if snsEmailAddress sampleConfig \<noteq> []
                         then Attr ''ServerSnsTopic'' ''topicArn'' else Plain [])),
         (''TWILIOFROM'', Plain (phoneFrom (twilio sampleConfig))),
         (''TWILIOTO'', Plain (phoneTo (twilio sampleConfig))),
         (''TWILIOAID'', Plain (accountId (twilio sampleConfig))),
         (''TWILIOAUTH'', Plain (authCode (twilio sampleConfig))),
         (''STARTUPMIN'', Plain (startupMinutes sampleConfig)),
         (''SHUTDOWNMIN'', Plain (shutdownMinutes sampleConfig))]"
    by blast
  with c cid show "\<exists>c \<in> set (containers sampleStack).
      containerId c = ''WatchDogContainer-server1'' \<and>
      essential c \<and>
      environment c = Vars
        [(''CLUSTER'', Plain ''minecraft''),
         (''SERVICE'', Plain ''minecraft-server-server1''),
         (''DNSZONE'', Plain ''value:MinecraftHostedZoneID@us-east-1''),
         (''SERVERNAME'', Plain ''server1.minecraft.example.com''),
         (''SNSTOPIC'', Plain []),
         (''TWILIOFROM'', Plain []),
         (''TWILIOTO'', Plain []),
         (''TWILIOAID'', Plain []),
         (''TWILIOAUTH'', Plain []),
         (''STARTUPMIN'', Plain ''5''),
         (''SHUTDOWNMIN'', Plain ''10'')]"
    by (intro bexI[of _ c]) (simp_all add: sampleDeps_def sampleConfig_def)
qed

subsection \<open>C8: the compute service\<close>

text \<open>
  C8. The constructor creates one service per tenant key, in key order. The service of
  a key has desired count zero, a single capacity-provider strategy that is
  \<^verbatim>\<open>FARGATE_SPOT\<close> when the spot flag is set and \<^verbatim>\<open>FARGATE\<close> otherwise, with weight 1
  and base 1, a public address, and the shared service security group as its only group.
\<close>

theorem service_cold_public_shared_group:
  assumes "MinecraftStack d config = Inr t"
  shows "services t =
           map (minecraftServerService d config) (Object_keys (minecraftServerDefs config)) \<and>
         (\<forall>key \<in> set (Object_keys (minecraftServerDefs config)).
            serviceId (minecraftServerService d config key) = ''FargateService-'' @ key \<and>
            desiredCount (minecraftServerService d config key) = 0 \<and>
            capacityProviderStrategies (minecraftServerService d config key) =
              [\<lparr> capacityProvider = (if useFargateSpot config then ''FARGATE_SPOT'' else ''FARGATE''),
                 weight = 1, base = 1 \<rparr>] \<and>
            assignPublicIp (minecraftServerService d config key) \<and>
            securityGroups (minecraftServerService d config key) = [''ServiceSecurityGroup'']) \<and>
         sgId (hd (groups t)) = ''ServiceSecurityGroup''"
proof -
  have "groups t = groups (shared d config)"
    using stack_shared_nodes[OF assms] by simp
  then have "sgId (hd (groups t)) = ''ServiceSecurityGroup''"
    by (simp add: shared_def)
  then show ?thesis
    by (simp add: stack_services[OF assms] minecraftServerService_def)
qed

theorem service_cold_public_shared_group_witness:
  "MinecraftStack sampleDeps sampleConfig = Inr sampleStack \<and>
   map (\<lambda>s. (serviceName s, desiredCount s, capacityProviderStrategies s,
              assignPublicIp s, securityGroups s)) (services sampleStack) =
     [(''minecraft-server-server1'', 0,
       [\<lparr> capacityProvider = ''FARGATE_SPOT'', weight = 1, base = 1 \<rparr>],
       True, [''ServiceSecurityGroup'']),
      (''minecraft-server-server2'', 0,
       [\<lparr> capacityProvider = ''FARGATE_SPOT'', weight = 1, base = 1 \<rparr>],
       True, [''ServiceSecurityGroup''])]"
proof
  show "MinecraftStack sampleDeps sampleConfig = Inr sampleStack"
    by (rule sample_run)
  from service_cold_public_shared_group[OF sample_run]
  have "services sampleStack =
          map (minecraftServerService sampleDeps sampleConfig) [''server1'', ''server2'']"
    by (simp add: sample_keys)
  then show "map (\<lambda>s. (serviceName s, desiredCount s, capacityProviderStrategies s,
              assignPublicIp s, securityGroups s)) (services sampleStack) =
     [(''minecraft-server-server1'', 0,
       [\<lparr> capacityProvider = ''FARGATE_SPOT'', weight = 1, base = 1 \<rparr>],
       True, [''ServiceSecurityGroup'']),
      (''minecraft-server-server2'', 0,
       [\<lparr> capacityProvider = ''FARGATE_SPOT'', weight = 1, base = 1 \<rparr>],
       True, [''ServiceSecurityGroup''])]"
    by (simp add: minecraftServerService_def sampleDeps_def sampleConfig_def)
qed

subsection \<open>C9: the empty tenant map\<close>

text \<open>
  C9. For the empty tenant map the constructor returns, and what it returns is the
  shared part alone: no task definition, container, mount point, service or imported
  role, no policy beyond the two shared ones, and no ingress rule on the service
  security group.
\<close>

theorem empty_tenant_map_shared_only:
  assumes "minecraftServerDefs config = []"
  shows "MinecraftStack d config = Inr (shared d config) \<and>
         taskDefinitions (shared d config) = [] \<and>
         containers (shared d config) = [] \<and>
         mountPoints (shared d config) = [] \<and>
         services (shared d config) = [] \<and>
         importedRoles (shared d config) = [] \<and>
         policies (shared d config) = [efsReadWriteDataPolicy, ssmManagedInstanceCorePolicy] \<and>
         directIngressRules (shared d config) = []"
proof -
  have "MinecraftStack d config = Inr (shared d config)"
    using assms by (simp add: MinecraftStack_def Object_keys_def)
  then show ?thesis
    by (simp add: shared_def)
qed

theorem empty_tenant_map_shared_only_witness:
  "MinecraftStack sampleDeps (sampleConfig\<lparr>minecraftServerDefs := []\<rparr>)
     = Inr (shared sampleDeps (sampleConfig\<lparr>minecraftServerDefs := []\<rparr>)) \<and>
   services (shared sampleDeps (sampleConfig\<lparr>minecraftServerDefs := []\<rparr>)) = [] \<and>
   directIngressRules (shared sampleDeps (sampleConfig\<lparr>minecraftServerDefs := []\<rparr>)) = [] \<and>
   map sgId (groups (shared sampleDeps (sampleConfig\<lparr>minecraftServerDefs := []\<rparr>)))
     = [''ServiceSecurityGroup'', ''EfsMaintenanceSecurityGroup'']"
proof -
  have h: "minecraftServerDefs (sampleConfig\<lparr>minecraftServerDefs := []\<rparr>) = []"
    by simp
  from empty_tenant_map_shared_only[OF h, of sampleDeps] show ?thesis
    by (simp add: shared_def)
qed

subsection \<open>C10: names and scopes are a function of the configuration\<close>

text \<open>
  C10. Two runs of the constructor on the same configuration, with the same constants
  and the same published parameters, give the same service names, container names,
  task-definition ids and policy scopes, key by key, whatever else differs between the
  runs (the presence of a local Docker, which decides the watchdog's image); and if
  one run returns, so does the other.
\<close>

theorem names_and_scopes_deterministic:
  assumes "MinecraftStack d1 config = Inr t1"
    and "constants d2 = constants d1"
    and "getParameterValue d2 = getParameterValue d1"
  shows "\<exists>t2. MinecraftStack d2 config = Inr t2 \<and>
           map serviceName (services t2) = map serviceName (services t1) \<and>
           map containerName (containers t2) = map containerName (containers t1) \<and>
           map taskDefinitionId (taskDefinitions t2) = map taskDefinitionId (taskDefinitions t1) \<and>
           map (\<lambda>p. (policyId p, policyScopes p)) (policies t2) =
             map (\<lambda>p. (policyId p, policyScopes p)) (policies t1)"
proof -
  have "\<exists>t2. MinecraftStack d2 config = Inr t2"
    by (rule stack_ok) (rule stack_ran[OF assms(1)])
  then obtain t2 where t2: "MinecraftStack d2 config = Inr t2" ..
  have s: "map serviceName (services t2) = map serviceName (services t1)"
    by (simp add: stack_services[OF t2] stack_services[OF assms(1)]
        minecraftServerService_def assms(2))
  have c: "map containerName (containers t2) = map containerName (containers t1)"
    by (simp add: stack_containers[OF t2] stack_containers[OF assms(1)] map_concat o_def
        minecraftServerContainer_def watchdogContainer_def Let_def assms(2))
  have td: "map taskDefinitionId (taskDefinitions t2) = map taskDefinitionId (taskDefinitions t1)"
    by (simp add: stack_taskDefinitions[OF t2] stack_taskDefinitions[OF assms(1)]
        taskDefinition_def)
  have p: "map (\<lambda>p. (policyId p, policyScopes p)) (policies t2) =
             map (\<lambda>p. (policyId p, policyScopes p)) (policies t1)"
    by (simp add: stack_policies[OF t2] stack_policies[OF assms(1)] map_concat o_def
        policyScopes_def serviceControlPolicy_def iamRoute53Policy_def hostedZoneId_def
        assms(2) assms(3))
  from t2 s c td p show ?thesis by blast
qed

theorem names_and_scopes_deterministic_witness:
  "MinecraftStack sampleDeps sampleConfig = Inr sampleStack \<and>
   (\<exists>t2. MinecraftStack (sampleDeps\<lparr> isDockerInstalled := True \<rparr>) sampleConfig = Inr t2 \<and>
      map serviceName (services t2) = map serviceName (services sampleStack) \<and>
      map containerName (containers t2) = map containerName (containers sampleStack) \<and>
      map taskDefinitionId (taskDefinitions t2) = map taskDefinitionId (taskDefinitions sampleStack) \<and>
      map (\<lambda>p. (policyId p, policyScopes p)) (policies t2) =
        map (\<lambda>p. (policyId p, policyScopes p)) (policies sampleStack))"
proof
  show "MinecraftStack sampleDeps sampleConfig = Inr sampleStack"
    by (rule sample_run)
  have c: "constants (sampleDeps\<lparr> isDockerInstalled := True \<rparr>) = constants sampleDeps"
    and g: "getParameterValue (sampleDeps\<lparr> isDockerInstalled := True \<rparr>) = getParameterValue sampleDeps"
    by simp_all
  from names_and_scopes_deterministic[OF sample_run c g]
  show "\<exists>t2. MinecraftStack (sampleDeps\<lparr> isDockerInstalled := True \<rparr>) sampleConfig = Inr t2 \<and>
      map serviceName (services t2) = map serviceName (services sampleStack) \<and>
      map containerName (containers t2) = map containerName (containers sampleStack) \<and>
      map taskDefinitionId (taskDefinitions t2) = map taskDefinitionId (taskDefinitions sampleStack) \<and>
      map (\<lambda>p. (policyId p, policyScopes p)) (policies t2) =
        map (\<lambda>p. (policyId p, policyScopes p)) (policies sampleStack)" .
qed

end
